theory Spec2Isabelle
  imports Main "HOL-Library.Stream" "HOL-Library.Multiset" "HOL-Library.AList"
begin

section \<open>Exceptions, envelopes and payloads\<close>

text \<open>
  A raised Python exception is a value. Only exceptions derived from \<^verbatim>\<open>Exception\<close>
  are modelled (the ones \<^verbatim>\<open>except Exception as e\<close> catches); the string is \<^verbatim>\<open>str(e)\<close>.
  \<^verbatim>\<open>ValueError\<close> is what \<^verbatim>\<open>random.sample\<close> raises; \<^verbatim>\<open>Exception\<close> stands for every
  other class (a failed request, a body that is not JSON of the expected shape).
  A computation that may raise has the type \<open>exn + 'a\<close>, with \<open>Inl\<close> for the exception.
\<close>

datatype exn = ValueError string | Exception string

fun str :: "exn \<Rightarrow> string" where
  "str (ValueError m) = m"
| "str (Exception m) = m"

text \<open>
  Sequencing inside a Python block: when the first statement raises, the rest of the
  block is skipped. \<open>try_except\<close> is \<^verbatim>\<open>try: body except Exception as e: handler(e)\<close>.
\<close>

definition attempt :: "exn + 'a \<Rightarrow> ('a \<Rightarrow> exn + 'b) \<Rightarrow> exn + 'b" where
  "attempt c k = (case c of Inl e \<Rightarrow> Inl e | Inr v \<Rightarrow> k v)"

definition try_except :: "exn + 'a \<Rightarrow> (exn \<Rightarrow> exn + 'a) \<Rightarrow> exn + 'a" where
  "try_except body handler = (case body of Inl e \<Rightarrow> handler e | Inr v \<Rightarrow> Inr v)"

text \<open>
  The dictionary every wrapper returns: \<^verbatim>\<open>{"success": True, "data": d, "message": m}\<close>
  or \<^verbatim>\<open>{"success": False, "error": str(e), "message": m}\<close>.
\<close>

datatype 'a envelope = success: Success 'a string | Failure string string

text \<open>Decimal rendering of a number inside an f-string.\<close>

fun str_nat :: "nat \<Rightarrow> string" where
  "str_nat n =
     (if n < 10 then [''0123456789'' ! n]
      else str_nat (n div 10) @ [''0123456789'' ! (n mod 10)])"

declare str_nat.simps [simp del]

definition str_int :: "int \<Rightarrow> string" where
  "str_int i = (if i < 0 then CHR ''-'' # str_nat (nat (- i)) else str_nat (nat i))"

text \<open>
  A payload the wrappers hand on without looking inside is a JSON value; \<open>truthy\<close> is
  Python's truth value of it (\<^verbatim>\<open>if not playback\<close>).
\<close>

datatype json = JNull | JBool bool | JNumber int | JString string
  | JArray "json list" | JObject "(string \<times> json) list"

fun truthy :: "json \<Rightarrow> bool" where
  "truthy JNull = False"
| "truthy (JBool b) = b"
| "truthy (JNumber n) = (n \<noteq> 0)"
| "truthy (JString s) = (s \<noteq> [])"
| "truthy (JArray xs) = (xs \<noteq> [])"
| "truthy (JObject kvs) = (kvs \<noteq> [])"

text \<open>
  The payloads the code reads are typed after the keys it reads: \<^verbatim>\<open>artist["id"]\<close>,
  \<^verbatim>\<open>artist["name"]\<close>, \<^verbatim>\<open>track["artists"]\<close>, \<^verbatim>\<open>item["track"]\<close>, \<^verbatim>\<open>item["album"]\<close>,
  \<^verbatim>\<open>page["items"]\<close>, \<^verbatim>\<open>data["artists"]["items"]\<close>, \<^verbatim>\<open>results["tracks"]["items"]\<close>,
  \<^verbatim>\<open>tracks["tracks"]\<close>, \<^verbatim>\<open>devices["devices"]\<close>, \<^verbatim>\<open>user["id"]\<close>, \<^verbatim>\<open>playlist["id"]\<close>.
\<close>

record artist =
  artist_id :: string
  artist_name :: string

record track =
  track_id :: string
  track_name :: string
  track_artists :: "artist list"

record album =
  album_artists :: "artist list"

record track_item =
  item_track :: track

record album_item =
  item_album :: album

record playlist =
  playlist_id :: string

record user =
  user_id :: string

record 'a page =
  items :: "'a list"

record followed =
  followed_artists :: "artist page"

record search_result =
  result_tracks :: "track page"

record several_tracks =
  tracks_list :: "track list"

record device_list =
  listed_devices :: "json list"

section \<open>The spotipy client\<close>

text \<open>
  \<^verbatim>\<open>self.sp\<close>: one field per method of the spotipy client that the wrappers call, giving
  the outcome of the call for its arguments (a returned payload or a raised exception).
  \<open>sp_start_playback\<close> takes the keyword arguments \<^verbatim>\<open>context_uri\<close> and \<^verbatim>\<open>uris\<close>,
  \<open>sp_current_user_followed_artists\<close> takes \<^verbatim>\<open>limit\<close>, \<^verbatim>\<open>type\<close> and the optional \<^verbatim>\<open>after\<close>.
\<close>

record sp =
  sp_current_user :: "exn + user"
  sp_current_playback :: "exn + json"
  sp_current_user_playlists :: "int \<Rightarrow> int \<Rightarrow> exn + playlist page"
  sp_queue :: "exn + json"
  sp_search :: "string \<Rightarrow> string \<Rightarrow> int \<Rightarrow> exn + search_result"
  sp_start_playback :: "string option \<Rightarrow> string list option \<Rightarrow> exn + unit"
  sp_pause_playback :: "exn + unit"
  sp_next_track :: "exn + unit"
  sp_previous_track :: "exn + unit"
  sp_current_user_recently_played :: "int \<Rightarrow> exn + track_item page"
  sp_current_user_top_tracks :: "string \<Rightarrow> int \<Rightarrow> exn + track page"
  sp_user_playlist_create :: "string \<Rightarrow> string \<Rightarrow> string \<Rightarrow> bool \<Rightarrow> exn + json"
  sp_playlist_add_items :: "string \<Rightarrow> string list \<Rightarrow> exn + unit"
  sp_playlist_tracks :: "string \<Rightarrow> int \<Rightarrow> int \<Rightarrow> exn + track_item page"
  sp_devices :: "exn + device_list"
  sp_transfer_playback :: "string \<Rightarrow> bool \<Rightarrow> exn + unit"
  sp_volume :: "int \<Rightarrow> exn + unit"
  sp_shuffle :: "bool \<Rightarrow> exn + unit"
  sp_repeat :: "string \<Rightarrow> exn + unit"
  sp_current_user_top_artists :: "string \<Rightarrow> int \<Rightarrow> exn + artist page"
  sp_current_user_saved_albums :: "int \<Rightarrow> int \<Rightarrow> exn + album_item page"
  sp_current_user_saved_tracks :: "int \<Rightarrow> int \<Rightarrow> exn + track_item page"
  sp_current_user_followed_artists :: "int \<Rightarrow> string \<Rightarrow> string option \<Rightarrow> exn + followed"
  sp_tracks :: "string list \<Rightarrow> exn + several_tracks"
  sp_album_tracks :: "string \<Rightarrow> int \<Rightarrow> int \<Rightarrow> exn + json page"

section \<open>SpotifyClient: the wrappers\<close>

definition get_user_profile :: "sp \<Rightarrow> exn + user envelope" where
  "get_user_profile self =
     try_except
       (attempt (sp_current_user self) (\<lambda>user.
          Inr (Success user ''Successfully retrieved user profile'')))
       (\<lambda>e. Inr (Failure (str e) ''Failed to get user profile''))"

definition get_current_playback :: "sp \<Rightarrow> exn + json envelope" where
  "get_current_playback self =
     try_except
       (attempt (sp_current_playback self) (\<lambda>playback.
          if \<not> truthy playback
          then Inr (Success JNull ''No content is currently playing'')
          else Inr (Success playback ''Successfully retrieved playback status'')))
       (\<lambda>e. Inr (Failure (str e) ''Failed to get playback status''))"

definition get_user_playlists :: "sp \<Rightarrow> int \<Rightarrow> int \<Rightarrow> exn + playlist page envelope" where
  "get_user_playlists self limit offset =
     try_except
       (attempt (sp_current_user_playlists self limit offset) (\<lambda>playlists.
          Inr (Success playlists
            (''Successfully retrieved playlists, total: '' @ str_nat (length (items playlists))))))
       (\<lambda>e. Inr (Failure (str e) ''Failed to get playlists''))"

definition get_queue :: "sp \<Rightarrow> exn + json envelope" where
  "get_queue self =
     try_except
       (attempt (sp_queue self) (\<lambda>queue.
          Inr (Success queue ''Successfully retrieved playback queue'')))
       (\<lambda>e. Inr (Failure (str e) ''Failed to get queue''))"

definition search_tracks :: "sp \<Rightarrow> string \<Rightarrow> int \<Rightarrow> exn + search_result envelope" where
  "search_tracks self query limit =
     try_except
       (attempt (sp_search self query ''track'' limit) (\<lambda>results.
          Inr (Success results
            (''Search successful, found '' @ str_nat (length (items (result_tracks results)))
               @ '' tracks''))))
       (\<lambda>e. Inr (Failure (str e) ''Search failed''))"

definition play_track :: "sp \<Rightarrow> string \<Rightarrow> exn + unit envelope" where
  "play_track self track_uri =
     try_except
       (attempt (sp_start_playback self None (Some [track_uri])) (\<lambda>_.
          Inr (Success () (''Started playing track: '' @ track_uri))))
       (\<lambda>e. Inr (Failure (str e) ''Playback failed''))"

definition play_playlist :: "sp \<Rightarrow> string \<Rightarrow> exn + unit envelope" where
  "play_playlist self playlist_uri =
     try_except
       (attempt (sp_start_playback self (Some playlist_uri) None) (\<lambda>_.
          Inr (Success () (''Started playing playlist: '' @ playlist_uri))))
       (\<lambda>e. Inr (Failure (str e) ''Playlist playback failed''))"

definition pause_playback :: "sp \<Rightarrow> exn + unit envelope" where
  "pause_playback self =
     try_except
       (attempt (sp_pause_playback self) (\<lambda>_. Inr (Success () ''Playback paused'')))
       (\<lambda>e. Inr (Failure (str e) ''Failed to pause''))"

definition resume_playback :: "sp \<Rightarrow> exn + unit envelope" where
  "resume_playback self =
     try_except
       (attempt (sp_start_playback self None None) (\<lambda>_.
          Inr (Success () ''Playback resumed'')))
       (\<lambda>e. Inr (Failure (str e) ''Failed to resume playback''))"

definition skip_to_next :: "sp \<Rightarrow> exn + unit envelope" where
  "skip_to_next self =
     try_except
       (attempt (sp_next_track self) (\<lambda>_. Inr (Success () ''Skipped to next track'')))
       (\<lambda>e. Inr (Failure (str e) ''Failed to skip to next track''))"

definition skip_to_previous :: "sp \<Rightarrow> exn + unit envelope" where
  "skip_to_previous self =
     try_except
       (attempt (sp_previous_track self) (\<lambda>_.
          Inr (Success () ''Skipped to previous track'')))
       (\<lambda>e. Inr (Failure (str e) ''Failed to skip to previous track''))"

definition get_recently_played :: "sp \<Rightarrow> int \<Rightarrow> exn + track_item page envelope" where
  "get_recently_played self limit =
     try_except
       (attempt (sp_current_user_recently_played self limit) (\<lambda>recent.
          Inr (Success recent
            (''Successfully retrieved recently played, total: ''
               @ str_nat (length (items recent)) @ '' tracks''))))
       (\<lambda>e. Inr (Failure (str e) ''Failed to get recently played''))"

definition get_top_tracks :: "sp \<Rightarrow> string \<Rightarrow> int \<Rightarrow> exn + track page envelope" where
  "get_top_tracks self time_range limit =
     try_except
       (attempt (sp_current_user_top_tracks self time_range limit) (\<lambda>top_tracks.
          Inr (Success top_tracks
            (''Successfully retrieved top tracks, total: ''
               @ str_nat (length (items top_tracks)) @ '' tracks''))))
       (\<lambda>e. Inr (Failure (str e) ''Failed to get top tracks''))"

definition create_playlist :: "sp \<Rightarrow> string \<Rightarrow> string \<Rightarrow> bool \<Rightarrow> exn + json envelope" where
  "create_playlist self name description public =
     try_except
       (attempt (sp_current_user self) (\<lambda>user.
        attempt (sp_user_playlist_create self (user_id user) name description public)
          (\<lambda>playlist.
          Inr (Success playlist
            (''Playlist '' @ [CHR 0x27] @ name @ [CHR 0x27] @ '' created successfully'')))))
       (\<lambda>e. Inr (Failure (str e) ''Failed to create playlist''))"

definition add_tracks_to_playlist :: "sp \<Rightarrow> string \<Rightarrow> string list \<Rightarrow> exn + unit envelope" where
  "add_tracks_to_playlist self playlist_id' track_uris =
     try_except
       (attempt (sp_playlist_add_items self playlist_id' track_uris) (\<lambda>_.
          Inr (Success ()
            (''Successfully added '' @ str_nat (length track_uris) @ '' tracks to playlist''))))
       (\<lambda>e. Inr (Failure (str e) ''Failed to add tracks''))"

definition get_playlist_tracks ::
  "sp \<Rightarrow> string \<Rightarrow> int \<Rightarrow> int \<Rightarrow> exn + track_item page envelope" where
  "get_playlist_tracks self playlist_id' limit offset =
     try_except
       (attempt (sp_playlist_tracks self playlist_id' limit offset) (\<lambda>tracks.
          Inr (Success tracks
            (''Successfully retrieved playlist tracks, total: ''
               @ str_nat (length (items tracks)) @ '' tracks''))))
       (\<lambda>e. Inr (Failure (str e) ''Failed to get playlist tracks''))"

definition get_available_devices :: "sp \<Rightarrow> exn + device_list envelope" where
  "get_available_devices self =
     try_except
       (attempt (sp_devices self) (\<lambda>devices.
          Inr (Success devices
            (''Successfully retrieved device list, total: ''
               @ str_nat (length (listed_devices devices)) @ '' devices''))))
       (\<lambda>e. Inr (Failure (str e) ''Failed to get device list''))"

definition transfer_playback :: "sp \<Rightarrow> string \<Rightarrow> bool \<Rightarrow> exn + unit envelope" where
  "transfer_playback self device_id play =
     try_except
       (attempt (sp_transfer_playback self device_id play) (\<lambda>_.
          Inr (Success () (''Playback transferred to device: '' @ device_id))))
       (\<lambda>e. Inr (Failure (str e) ''Failed to transfer playback''))"

definition set_volume :: "sp \<Rightarrow> int \<Rightarrow> exn + unit envelope" where
  "set_volume self volume_percent =
     try_except
       (attempt (sp_volume self volume_percent) (\<lambda>_.
          Inr (Success () (''Volume set to '' @ str_int volume_percent @ ''%''))))
       (\<lambda>e. Inr (Failure (str e) ''Failed to set volume''))"

definition toggle_shuffle :: "sp \<Rightarrow> bool \<Rightarrow> exn + unit envelope" where
  "toggle_shuffle self state =
     try_except
       (attempt (sp_shuffle self state) (\<lambda>_.
          Inr (Success ()
            (''Shuffle mode '' @ (if state then ''enabled'' else ''disabled'')))))
       (\<lambda>e. Inr (Failure (str e) ''Failed to toggle shuffle''))"

definition set_repeat_mode :: "sp \<Rightarrow> string \<Rightarrow> exn + unit envelope" where
  "set_repeat_mode self state =
     try_except
       (attempt (sp_repeat self state) (\<lambda>_.
          Inr (Success () (''Repeat mode set to: '' @ state))))
       (\<lambda>e. Inr (Failure (str e) ''Failed to set repeat mode''))"

definition get_top_artists :: "sp \<Rightarrow> string \<Rightarrow> int \<Rightarrow> exn + artist page envelope" where
  "get_top_artists self time_range limit =
     try_except
       (attempt (sp_current_user_top_artists self time_range limit) (\<lambda>top_artists.
          Inr (Success top_artists
            (''Successfully retrieved top artists, total: ''
               @ str_nat (length (items top_artists)) @ '' artists''))))
       (\<lambda>e. Inr (Failure (str e) ''Failed to get top artists''))"

definition get_saved_albums :: "sp \<Rightarrow> int \<Rightarrow> int \<Rightarrow> exn + album_item page envelope" where
  "get_saved_albums self limit offset =
     try_except
       (attempt (sp_current_user_saved_albums self limit offset) (\<lambda>albums.
          Inr (Success albums
            (''Successfully retrieved saved albums, total: ''
               @ str_nat (length (items albums)) @ '' albums''))))
       (\<lambda>e. Inr (Failure (str e) ''Failed to get saved albums''))"

definition get_saved_tracks :: "sp \<Rightarrow> int \<Rightarrow> int \<Rightarrow> exn + track_item page envelope" where
  "get_saved_tracks self limit offset =
     try_except
       (attempt (sp_current_user_saved_tracks self limit offset) (\<lambda>tracks.
          Inr (Success tracks
            (''Successfully retrieved saved tracks, total: ''
               @ str_nat (length (items tracks)) @ '' tracks''))))
       (\<lambda>e. Inr (Failure (str e) ''Failed to get saved tracks''))"

definition get_followed_artists :: "sp \<Rightarrow> int \<Rightarrow> string option \<Rightarrow> exn + followed envelope" where
  "get_followed_artists self limit after =
     try_except
       (attempt
          (sp_current_user_followed_artists self limit ''artist''
             (case after of None \<Rightarrow> None | Some a \<Rightarrow> if a \<noteq> [] then Some a else None))
          (\<lambda>artists.
          Inr (Success artists
            (''Successfully retrieved followed artists, total: ''
               @ str_nat (length (items (followed_artists artists))) @ '' artists''))))
       (\<lambda>e. Inr (Failure (str e) ''Failed to get followed artists''))"

definition get_tracks :: "sp \<Rightarrow> string list \<Rightarrow> exn + several_tracks envelope" where
  "get_tracks self track_ids =
     try_except
       (attempt (sp_tracks self track_ids) (\<lambda>tracks.
          Inr (Success tracks
            (''Successfully retrieved '' @ str_nat (length (tracks_list tracks))
               @ '' tracks''))))
       (\<lambda>e. Inr (Failure (str e) ''Failed to get tracks''))"

definition get_album_tracks :: "sp \<Rightarrow> string \<Rightarrow> int \<Rightarrow> int \<Rightarrow> exn + json page envelope" where
  "get_album_tracks self album_id limit offset =
     try_except
       (attempt (sp_album_tracks self album_id limit offset) (\<lambda>tracks.
          Inr (Success tracks
            (''Successfully retrieved tracks for album '' @ album_id @ '', total: ''
               @ str_nat (length (items tracks)) @ '' tracks''))))
       (\<lambda>e. Inr (Failure (str e) (''Failed to get tracks for album '' @ album_id)))"

section \<open>SpotifySuperClient.recall_artists\<close>

text \<open>
  \<^verbatim>\<open>artist_ids\<close> and \<^verbatim>\<open>artist_names\<close> are two lists appended to in step; the loops
  carry them as a pair. \<open>append_artists\<close> is the innermost loop
  \<^verbatim>\<open>for artist in ...: artist_ids.append(artist["id"]); artist_names.append(artist["name"])\<close>.
\<close>

fun append_artists ::
  "artist list \<Rightarrow> string list \<times> string list \<Rightarrow> string list \<times> string list" where
  "append_artists [] acc = acc"
| "append_artists (artist # rest) (artist_ids, artist_names) =
     append_artists rest (artist_ids @ [artist_id artist], artist_names @ [artist_name artist])"

text \<open>\<^verbatim>\<open>for item in items: for artist in item["track"]["artists"]: ...\<close>\<close>

fun append_track_items ::
  "track_item list \<Rightarrow> string list \<times> string list \<Rightarrow> string list \<times> string list" where
  "append_track_items [] acc = acc"
| "append_track_items (item # rest) acc =
     append_track_items rest (append_artists (track_artists (item_track item)) acc)"

text \<open>\<^verbatim>\<open>for track in items: for artist in track["artists"]: ...\<close>\<close>

fun append_tracks ::
  "track list \<Rightarrow> string list \<times> string list \<Rightarrow> string list \<times> string list" where
  "append_tracks [] acc = acc"
| "append_tracks (t # rest) acc = append_tracks rest (append_artists (track_artists t) acc)"

text \<open>\<^verbatim>\<open>for item in items: album = item["album"]; for artist in album["artists"]: ...\<close>\<close>

fun append_album_items ::
  "album_item list \<Rightarrow> string list \<times> string list \<Rightarrow> string list \<times> string list" where
  "append_album_items [] acc = acc"
| "append_album_items (item # rest) acc =
     append_album_items rest (append_artists (album_artists (item_album item)) acc)"

text \<open>
  \<^verbatim>\<open>for playlist in items: tracks_result = self.get_playlist_tracks(playlist["id"], limit=3,
  offset=track_offset); if tracks_result["success"]: ...\<close>
\<close>

fun append_playlists ::
  "sp \<Rightarrow> playlist list \<Rightarrow> string list \<times> string list \<Rightarrow> exn + (string list \<times> string list)"
  where
  "append_playlists self [] acc = Inr acc"
| "append_playlists self (pl # rest) acc =
     attempt (get_playlist_tracks self (playlist_id pl) 3 0) (\<lambda>tracks_result.
       case tracks_result of
         Success data _ \<Rightarrow> append_playlists self rest (append_track_items (items data) acc)
       | Failure _ _ \<Rightarrow> append_playlists self rest acc)"

text \<open>
  The last loop: \<^verbatim>\<open>for (artist_id, artist_name) in zip(artist_ids, artist_names):
  if artist_id not in result_artist_ids: ...append...\<close>
\<close>

fun dedup_loop ::
  "(string \<times> string) list \<Rightarrow> string list \<times> string list \<Rightarrow> string list \<times> string list" where
  "dedup_loop [] acc = acc"
| "dedup_loop ((i, n) # rest) (result_artist_ids, result_artist_names) =
     (if i \<notin> set result_artist_ids
      then dedup_loop rest (result_artist_ids @ [i], result_artist_names @ [n])
      else dedup_loop rest (result_artist_ids, result_artist_names))"

text \<open>
  The seven sources, up to the point where the two lists are complete. A wrapper's
  envelope with \<^verbatim>\<open>success\<close> false leaves the lists as they are.
\<close>

definition collect_artists :: "sp \<Rightarrow> int \<Rightarrow> int \<Rightarrow> exn + (string list \<times> string list)" where
  "collect_artists self top_limit recent_limit =
     attempt (get_recently_played self recent_limit) (\<lambda>recent.
     let acc1 = (case recent of Success data _ \<Rightarrow> append_track_items (items data) ([], [])
                 | Failure _ _ \<Rightarrow> ([], [])) in
     attempt (get_top_tracks self ''long_term'' top_limit) (\<lambda>top_tracks.
     let acc2 = (case top_tracks of Success data _ \<Rightarrow> append_tracks (items data) acc1
                 | Failure _ _ \<Rightarrow> acc1) in
     attempt (get_top_artists self ''long_term'' top_limit) (\<lambda>top_artists.
     let acc3 = (case top_artists of Success data _ \<Rightarrow> append_artists (items data) acc2
                 | Failure _ _ \<Rightarrow> acc2) in
     attempt (get_followed_artists self 3 None) (\<lambda>followed.
     let acc4 = (case followed of
                   Success data _ \<Rightarrow> append_artists (items (followed_artists data)) acc3
                 | Failure _ _ \<Rightarrow> acc3) in
     attempt (get_user_playlists self 3 0) (\<lambda>playlists.
     attempt (case playlists of Success data _ \<Rightarrow> append_playlists self (items data) acc4
              | Failure _ _ \<Rightarrow> Inr acc4) (\<lambda>acc5.
     attempt (get_saved_albums self 3 0) (\<lambda>saved_albums.
     let acc6 = (case saved_albums of Success data _ \<Rightarrow> append_album_items (items data) acc5
                 | Failure _ _ \<Rightarrow> acc5) in
     attempt (get_saved_tracks self 3 0) (\<lambda>saved_tracks.
     let acc7 = (case saved_tracks of Success data _ \<Rightarrow> append_track_items (items data) acc6
                 | Failure _ _ \<Rightarrow> acc6) in
     Inr acc7))))))))"

definition recall_artists ::
  "sp \<Rightarrow> int \<Rightarrow> int \<Rightarrow> int \<Rightarrow> int \<Rightarrow> int \<Rightarrow> exn + (string list \<times> string list)" where
  "recall_artists self top_limit recent_limit playlist_limit album_limit saved_tracks_limit =
     attempt (collect_artists self top_limit recent_limit) (\<lambda>(artist_ids, artist_names).
       Inr (dedup_loop (zip artist_ids artist_names) ([], [])))"

section \<open>The random module\<close>

text \<open>
  The generator is an explicit stream of raw draws; \<open>randbelow n\<close> (defined for \<open>n > 0\<close>)
  reduces the next draw to \<open>[0, n)\<close>. \<open>random_sample\<close> is \<^verbatim>\<open>random.sample(population, k)\<close>
  by selection from a pool: the chosen slot is refilled with the last unchosen element.
  \<open>random_shuffle\<close> is \<^verbatim>\<open>random.shuffle(x)\<close>: for \<open>i\<close> from \<open>len(x) - 1\<close> down to 1, swap
  \<open>x[i]\<close> with \<open>x[randbelow(i + 1)]\<close>.
\<close>

type_synonym rng = "nat stream"

definition randbelow :: "nat \<Rightarrow> rng \<Rightarrow> nat \<times> rng" where
  "randbelow n g = (shd g mod n, stl g)"

fun sample_pool :: "nat \<Rightarrow> 'a list \<Rightarrow> rng \<Rightarrow> 'a list \<times> rng" where
  "sample_pool 0 pool g = ([], g)"
| "sample_pool (Suc k) pool g =
     (case randbelow (length pool) g of (j, g1) \<Rightarrow>
      case sample_pool k (butlast (pool[j := last pool])) g1 of (result, g2) \<Rightarrow>
        (pool ! j # result, g2))"

definition random_sample :: "'a list \<Rightarrow> int \<Rightarrow> rng \<Rightarrow> exn + ('a list \<times> rng)" where
  "random_sample population k g =
     (if 0 \<le> k \<and> k \<le> int (length population)
      then Inr (sample_pool (nat k) population g)
      else Inl (ValueError ''Sample larger than population or is negative''))"

fun shuffle_loop :: "nat \<Rightarrow> 'a list \<Rightarrow> rng \<Rightarrow> 'a list \<times> rng" where
  "shuffle_loop 0 x g = (x, g)"
| "shuffle_loop (Suc i) x g =
     (case randbelow (Suc i + 1) g of (j, g1) \<Rightarrow>
        shuffle_loop i (x[Suc i := x ! j, j := x ! Suc i]) g1)"

definition random_shuffle :: "'a list \<Rightarrow> rng \<Rightarrow> 'a list \<times> rng" where
  "random_shuffle x g = shuffle_loop (length x - 1) x g"

section \<open>The TiVo catalogue client\<close>

text \<open>
  A decoded response body: \<^verbatim>\<open>data['hits']\<close> is null or a list. A hit of the artist search
  and of the discography lookup is read for \<^verbatim>\<open>hit['id']\<close>; a hit of the album lookup may
  have the key \<^verbatim>\<open>'tracks'\<close>; a track is read for \<^verbatim>\<open>track['title']\<close>.
\<close>

record tivo_hit =
  hit_id :: string

record tivo_track =
  tivo_track_id :: string
  title :: string

record album_hit =
  hit_tracks :: "tivo_track list option"

record 'h lookup =
  hits :: "'h list option"

text \<open>
  \<^verbatim>\<open>response = await client.get(url); data = response.json()\<close>, one field per endpoint:
  the decoded body for the URL, or the exception raised on the way.
\<close>

record tivo =
  get_artist_search :: "string \<Rightarrow> exn + tivo_hit lookup"
  get_discography :: "string \<Rightarrow> exn + tivo_hit lookup"
  get_album :: "string \<Rightarrow> exn + album_hit lookup"

text \<open>
  What changes during a run: the generator, the URLs requested from the catalogue so far,
  and the queries passed to \<open>search_tracks\<close> so far.
\<close>

record world =
  rng :: rng
  http_log :: "string list"
  search_log :: "string list"

definition tivo_base :: string where
  "tivo_base = ''https://tivomusicapi-staging-elb.digitalsmiths.net/sd/tivomusicapi/taps/v3/''"

text \<open>\<^verbatim>\<open>artist_name.replace(' ', '+')\<close>\<close>

definition replace_space :: "string \<Rightarrow> string" where
  "replace_space s = map (\<lambda>c. if c = CHR '' '' then CHR ''+'' else c) s"

definition artist_search_url :: "string \<Rightarrow> string" where
  "artist_search_url artist_name' =
     tivo_base @ ''search/artist?name='' @ replace_space artist_name'
       @ ''&limit=1&includeAllFields=false''"

definition discography_url :: "string \<Rightarrow> string" where
  "discography_url artist_id' =
     tivo_base @ ''lookup/discography?nameId='' @ artist_id'
       @ ''&limit=10&includeAllFields=false''"

definition album_url :: "string \<Rightarrow> string" where
  "album_url album_id = tivo_base @ ''lookup/album?albumId='' @ album_id @ ''&limit=10''"

fun artist_ids_loop ::
  "tivo \<Rightarrow> string list \<Rightarrow> string list \<Rightarrow> world \<Rightarrow> exn + (string list \<times> world)" where
  "artist_ids_loop client [] artist_ids w = Inr (artist_ids, w)"
| "artist_ids_loop client (artist_name' # rest) artist_ids w =
     (let url = artist_search_url artist_name';
          w1 = w\<lparr>http_log := http_log w @ [url]\<rparr> in
      attempt (get_artist_search client url) (\<lambda>data.
        case hits data of
          Some (h # _) \<Rightarrow> artist_ids_loop client rest (artist_ids @ [hit_id h]) w1
        | _ \<Rightarrow> artist_ids_loop client rest artist_ids w1))"

definition get_tivo_artist_ids ::
  "tivo \<Rightarrow> string list \<Rightarrow> world \<Rightarrow> exn + (string list \<times> world)" where
  "get_tivo_artist_ids client artist_names w = artist_ids_loop client artist_names [] w"

text \<open>
  \<^verbatim>\<open>artist_album_dict\<close> is a dictionary iterated later in insertion order: an association
  list, where assigning to a present key keeps its place.
\<close>

fun artist_album_ids_loop ::
  "tivo \<Rightarrow> string list \<Rightarrow> (string \<times> string list) list \<Rightarrow> world
     \<Rightarrow> exn + ((string \<times> string list) list \<times> world)" where
  "artist_album_ids_loop client [] artist_album_dict w = Inr (artist_album_dict, w)"
| "artist_album_ids_loop client (artist_id' # rest) artist_album_dict w =
     (let url = discography_url artist_id';
          w1 = w\<lparr>http_log := http_log w @ [url]\<rparr> in
      attempt (get_discography client url) (\<lambda>data.
        case hits data of
          Some (h # hs) \<Rightarrow>
            artist_album_ids_loop client rest
              (AList.update artist_id' (map hit_id (take 2 (h # hs))) artist_album_dict) w1
        | _ \<Rightarrow> artist_album_ids_loop client rest artist_album_dict w1))"

definition get_tivo_artist_album_ids ::
  "tivo \<Rightarrow> string list \<Rightarrow> world \<Rightarrow> exn + ((string \<times> string list) list \<times> world)" where
  "get_tivo_artist_album_ids client artist_ids w = artist_album_ids_loop client artist_ids [] w"

fun tracks_in_albums_loop ::
  "tivo \<Rightarrow> string list \<Rightarrow> tivo_track list \<Rightarrow> world \<Rightarrow> exn + (tivo_track list \<times> world)" where
  "tracks_in_albums_loop client [] tivo_tracks w = Inr (tivo_tracks, w)"
| "tracks_in_albums_loop client (album_id # rest) tivo_tracks w =
     (let url = album_url album_id;
          w1 = w\<lparr>http_log := http_log w @ [url]\<rparr> in
      attempt (get_album client url) (\<lambda>data.
        case hits data of
          Some (h # _) \<Rightarrow>
            (case hit_tracks h of
               Some ts \<Rightarrow>
                 if length ts > 10
                 then attempt (random_sample ts 10 (rng w1)) (\<lambda>(chosen, g).
                        tracks_in_albums_loop client rest (tivo_tracks @ chosen) (w1\<lparr>rng := g\<rparr>))
                 else tracks_in_albums_loop client rest (tivo_tracks @ ts) w1
             | None \<Rightarrow> tracks_in_albums_loop client rest tivo_tracks w1)
        | _ \<Rightarrow> tracks_in_albums_loop client rest tivo_tracks w1))"

definition get_tivo_tracks_in_albums ::
  "tivo \<Rightarrow> string list \<Rightarrow> world \<Rightarrow> exn + (tivo_track list \<times> world)" where
  "get_tivo_tracks_in_albums client album_ids w = tracks_in_albums_loop client album_ids [] w"

text \<open>
  \<^verbatim>\<open>for artist_id, album_ids in artist_album_dict.items():
  tivo_tracks.extend(await self.get_tivo_tracks_in_albums(album_ids))\<close>
\<close>

fun tracks_in_dict_loop ::
  "tivo \<Rightarrow> (string \<times> string list) list \<Rightarrow> tivo_track list \<Rightarrow> world
     \<Rightarrow> exn + (tivo_track list \<times> world)" where
  "tracks_in_dict_loop client [] tivo_tracks w = Inr (tivo_tracks, w)"
| "tracks_in_dict_loop client ((artist_id', album_ids) # rest) tivo_tracks w =
     attempt (get_tivo_tracks_in_albums client album_ids w) (\<lambda>(found, w1).
       tracks_in_dict_loop client rest (tivo_tracks @ found) w1)"

definition get_tivo_tracks_in_artist_album_dict ::
  "tivo \<Rightarrow> (string \<times> string list) list \<Rightarrow> world \<Rightarrow> exn + (tivo_track list \<times> world)" where
  "get_tivo_tracks_in_artist_album_dict client artist_album_dict w =
     tracks_in_dict_loop client artist_album_dict [] w"

section \<open>SpotifySuperClient: the two recall pipelines\<close>

text \<open>
  The \<^verbatim>\<open>'data'\<close> of the returned dictionary: \<^verbatim>\<open>'tracks'\<close>, and in \<open>random_fill\<close> also
  \<^verbatim>\<open>'track_ids'\<close> and \<^verbatim>\<open>'artist_names'\<close>.
\<close>

record recall_data =
  data_tracks :: "track list"
  data_track_ids :: "string list option"
  data_artist_names :: "string list option"

text \<open>\<^verbatim>\<open>sep.join(xs)\<close>\<close>

fun join :: "string \<Rightarrow> string list \<Rightarrow> string" where
  "join sep [] = []"
| "join sep [x] = x"
| "join sep (x # y # ys) = x @ sep @ join sep (y # ys)"

text \<open>
  The search loop of \<open>recall_all_tracks\<close>. The list \<^verbatim>\<open>search_track_ids\<close> is tested in the
  loop and never appended to (the line that appends is commented out in the source), so
  the loop hands it on unchanged.
\<close>

fun recall_search_loop ::
  "sp \<Rightarrow> string list \<Rightarrow> track list \<Rightarrow> string list \<Rightarrow> world
     \<Rightarrow> exn + (track list \<times> string list \<times> world)" where
  "recall_search_loop self [] search_tracks' search_track_ids w =
     Inr (search_tracks', search_track_ids, w)"
| "recall_search_loop self (track_title # rest) search_tracks' search_track_ids w =
     (let w1 = w\<lparr>search_log := search_log w @ [track_title]\<rparr> in
      attempt (search_tracks self track_title 1) (\<lambda>search_track.
        case search_track of
          Success data _ \<Rightarrow>
            (case items (result_tracks data) of
               search_item # _ \<Rightarrow>
                 if track_id search_item \<in> set search_track_ids
                 then recall_search_loop self rest search_tracks' search_track_ids w1
                 else recall_search_loop self rest (search_tracks' @ [search_item])
                        search_track_ids w1
             | [] \<Rightarrow> recall_search_loop self rest search_tracks' search_track_ids w1)
        | Failure _ _ \<Rightarrow> recall_search_loop self rest search_tracks' search_track_ids w1))"

definition recall_all_tracks :: "sp \<Rightarrow> tivo \<Rightarrow> world \<Rightarrow> exn + (recall_data envelope \<times> world)"
  where
  "recall_all_tracks self client w =
     attempt (recall_artists self 5 5 5 5 5) (\<lambda>(_, artist_names).
     attempt (get_tivo_artist_ids client (take 3 artist_names) w) (\<lambda>(artist_ids, w1).
     attempt (get_tivo_artist_album_ids client artist_ids w1) (\<lambda>(artist_album_dict, w2).
     attempt (get_tivo_tracks_in_artist_album_dict client artist_album_dict w2)
       (\<lambda>(tivo_tracks, w3).
     case random_shuffle tivo_tracks (rng w3) of (shuffled, g) \<Rightarrow>
     let recall_track_titles = map title shuffled in
     attempt (recall_search_loop self recall_track_titles [] [] (w3\<lparr>rng := g\<rparr>))
       (\<lambda>(search_tracks', search_track_ids, w4).
     case random_shuffle search_tracks' (rng w4) of (result, g') \<Rightarrow>
     Inr (Success \<lparr>data_tracks = result, data_track_ids = None, data_artist_names = None\<rparr>
            ''Successfully recall tracks'',
          w4\<lparr>rng := g'\<rparr>))))))"

text \<open>The search loop of \<open>random_fill\<close>: three lists appended to in step.\<close>

fun fill_search_loop ::
  "sp \<Rightarrow> string list \<Rightarrow> track list \<times> string list \<times> string list \<Rightarrow> world
     \<Rightarrow> exn + ((track list \<times> string list \<times> string list) \<times> world)" where
  "fill_search_loop self [] acc w = Inr (acc, w)"
| "fill_search_loop self (track_title # rest) (search_tracks', search_track_ids,
       search_artist_names) w =
     (let w1 = w\<lparr>search_log := search_log w @ [track_title]\<rparr> in
      attempt (search_tracks self track_title 1) (\<lambda>search_track.
        case search_track of
          Success data _ \<Rightarrow>
            (case items (result_tracks data) of
               search_item # _ \<Rightarrow>
                 fill_search_loop self rest
                   (search_tracks' @ [search_item],
                    search_track_ids @ [track_id search_item],
                    search_artist_names
                      @ [join '', '' (map artist_name (track_artists search_item))]) w1
             | [] \<Rightarrow>
                 fill_search_loop self rest
                   (search_tracks', search_track_ids, search_artist_names) w1)
        | Failure _ _ \<Rightarrow>
            fill_search_loop self rest
              (search_tracks', search_track_ids, search_artist_names) w1))"

definition random_fill ::
  "sp \<Rightarrow> tivo \<Rightarrow> int \<Rightarrow> world \<Rightarrow> exn + (recall_data envelope \<times> world)" where
  "random_fill self client num_tracks w =
     attempt (recall_artists self 5 5 5 5 5) (\<lambda>(_, artist_names).
     attempt (get_tivo_artist_ids client artist_names w) (\<lambda>(artist_ids, w1).
     attempt (get_tivo_artist_album_ids client artist_ids w1) (\<lambda>(artist_album_dict, w2).
     attempt (get_tivo_tracks_in_artist_album_dict client artist_album_dict w2)
       (\<lambda>(tivo_tracks, w3).
     attempt (random_sample tivo_tracks (min num_tracks (int (length tivo_tracks))) (rng w3))
       (\<lambda>(sampled, g).
     let recall_track_titles = map title sampled in
     attempt (fill_search_loop self recall_track_titles ([], [], []) (w3\<lparr>rng := g\<rparr>))
       (\<lambda>((search_tracks', search_track_ids, search_artist_names), w4).
     Inr (Success \<lparr>data_tracks = search_tracks', data_track_ids = Some search_track_ids,
                   data_artist_names = Some search_artist_names\<rparr>
            ''Successfully random fill'',
          w4)))))))"

section \<open>Notions used in the statements\<close>

subsection \<open>Artist pairs and the seven sources\<close>

text \<open>
  The pairs (id, name) of a list of artists, of the tracks of a list of items, of a list of
  tracks and of the albums of a list of items, in the order of the lists.
\<close>

definition artist_pairs :: "artist list \<Rightarrow> (string \<times> string) list" where
  "artist_pairs xs = map (\<lambda>a. (artist_id a, artist_name a)) xs"

definition track_item_pairs :: "track_item list \<Rightarrow> (string \<times> string) list" where
  "track_item_pairs xs = concat (map (\<lambda>item. artist_pairs (track_artists (item_track item))) xs)"

definition track_pairs :: "track list \<Rightarrow> (string \<times> string) list" where
  "track_pairs xs = concat (map (\<lambda>t. artist_pairs (track_artists t)) xs)"

definition album_item_pairs :: "album_item list \<Rightarrow> (string \<times> string) list" where
  "album_item_pairs xs = concat (map (\<lambda>item. artist_pairs (album_artists (item_album item))) xs)"

text \<open>
  Deduplication by id that keeps the first occurrence: keep the head, drop every later
  pair with the same id, go on with the rest.
\<close>

fun first_seen :: "(string \<times> string) list \<Rightarrow> (string \<times> string) list" where
  "first_seen [] = []"
| "first_seen (p # ps) = p # first_seen (filter (\<lambda>q. fst q \<noteq> fst p) ps)"


text \<open>
  What each of the seven sources contributes, read off the envelope its wrapper
  returns: the pairs of the payload, in its order, for a success; nothing otherwise.
  \<open>playlist_pairs\<close> is the contribution of one playlist, \<open>seven_sources\<close> the
  concatenation in the order the sources are queried.
\<close>

definition source_recently_played :: "sp \<Rightarrow> int \<Rightarrow> (string \<times> string) list" where
  "source_recently_played self recent_limit =
     (case get_recently_played self recent_limit of
        Inr (Success data _) \<Rightarrow> track_item_pairs (items data) | _ \<Rightarrow> [])"

definition source_top_tracks :: "sp \<Rightarrow> int \<Rightarrow> (string \<times> string) list" where
  "source_top_tracks self top_limit =
     (case get_top_tracks self ''long_term'' top_limit of
        Inr (Success data _) \<Rightarrow> track_pairs (items data) | _ \<Rightarrow> [])"

definition source_top_artists :: "sp \<Rightarrow> int \<Rightarrow> (string \<times> string) list" where
  "source_top_artists self top_limit =
     (case get_top_artists self ''long_term'' top_limit of
        Inr (Success data _) \<Rightarrow> artist_pairs (items data) | _ \<Rightarrow> [])"

definition source_followed :: "sp \<Rightarrow> (string \<times> string) list" where
  "source_followed self =
     (case get_followed_artists self 3 None of
        Inr (Success data _) \<Rightarrow> artist_pairs (items (followed_artists data)) | _ \<Rightarrow> [])"

definition playlist_pairs :: "sp \<Rightarrow> playlist \<Rightarrow> (string \<times> string) list" where
  "playlist_pairs self pl =
     (case get_playlist_tracks self (playlist_id pl) 3 0 of
        Inr (Success data _) \<Rightarrow> track_item_pairs (items data) | _ \<Rightarrow> [])"

definition source_playlists :: "sp \<Rightarrow> (string \<times> string) list" where
  "source_playlists self =
     (case get_user_playlists self 3 0 of
        Inr (Success data _) \<Rightarrow> concat (map (playlist_pairs self) (items data)) | _ \<Rightarrow> [])"

definition source_saved_albums :: "sp \<Rightarrow> (string \<times> string) list" where
  "source_saved_albums self =
     (case get_saved_albums self 3 0 of
        Inr (Success data _) \<Rightarrow> album_item_pairs (items data) | _ \<Rightarrow> [])"

definition source_saved_tracks :: "sp \<Rightarrow> (string \<times> string) list" where
  "source_saved_tracks self =
     (case get_saved_tracks self 3 0 of
        Inr (Success data _) \<Rightarrow> track_item_pairs (items data) | _ \<Rightarrow> [])"

definition source_pairs :: "sp \<Rightarrow> int \<Rightarrow> int \<Rightarrow> (string \<times> string) list list" where
  "source_pairs self top_limit recent_limit =
     [source_recently_played self recent_limit, source_top_tracks self top_limit,
      source_top_artists self top_limit, source_followed self, source_playlists self,
      source_saved_albums self, source_saved_tracks self]"

definition seven_sources :: "sp \<Rightarrow> int \<Rightarrow> int \<Rightarrow> (string \<times> string) list" where
  "seven_sources self top_limit recent_limit = concat (source_pairs self top_limit recent_limit)"

subsection \<open>Envelopes and replies\<close>

text \<open>
  \<open>enveloped call result\<close>: the wrapper returned an envelope and raised nothing; the
  envelope is a failure with \<open>str e\<close> when the call raised \<open>e\<close>, a success when the call
  returned.
\<close>

fun enveloped :: "exn + 'a \<Rightarrow> exn + 'b envelope \<Rightarrow> bool" where
  "enveloped (Inl e) (Inr (Failure err _)) = (err = str e)"
| "enveloped (Inr _) (Inr (Success _ _)) = True"
| "enveloped _ _ = False"

text \<open>
  \<open>returns c\<close>: the computation did not raise. \<open>reliable client\<close>: no request to the
  catalogue raises.
\<close>

fun returns :: "exn + 'a \<Rightarrow> bool" where
  "returns (Inr _) = True"
| "returns (Inl _) = False"

definition reliable :: "tivo \<Rightarrow> bool" where
  "reliable client =
     (\<forall>url. returns (get_artist_search client url) \<and> returns (get_discography client url)
        \<and> returns (get_album client url))"

text \<open>
  Read off a reply of the catalogue: the id of the first hit, if there is one; whether
  there is a hit; the ids of the first two hits.
\<close>

definition first_hit_ids :: "exn + tivo_hit lookup \<Rightarrow> string list" where
  "first_hit_ids reply =
     (case reply of
        Inr data \<Rightarrow> (case hits data of Some (h # _) \<Rightarrow> [hit_id h] | _ \<Rightarrow> [])
      | Inl _ \<Rightarrow> [])"

definition has_hits :: "exn + 'h lookup \<Rightarrow> bool" where
  "has_hits reply =
     (case reply of
        Inr data \<Rightarrow> (case hits data of Some (_ # _) \<Rightarrow> True | _ \<Rightarrow> False)
      | Inl _ \<Rightarrow> False)"

definition album_ids_of :: "exn + tivo_hit lookup \<Rightarrow> string list" where
  "album_ids_of reply =
     (case reply of
        Inr data \<Rightarrow> (case hits data of Some hs \<Rightarrow> map hit_id (take 2 hs) | None \<Rightarrow> [])
      | Inl _ \<Rightarrow> [])"

text \<open>
  \<open>contribution_ok reply c\<close>: \<open>c\<close> is a contribution the album lookup \<open>reply\<close> allows:
  10 of the first hit's tracks, none more often than it occurs there, when it has more
  than 10; all its tracks otherwise; nothing when there is no hit or no \<^verbatim>\<open>tracks\<close> key.
\<close>

definition contribution_ok :: "exn + album_hit lookup \<Rightarrow> tivo_track list \<Rightarrow> bool" where
  "contribution_ok reply c =
     (case reply of
        Inr data \<Rightarrow>
          (case hits data of
             Some (h # _) \<Rightarrow>
               (case hit_tracks h of
                  Some ts \<Rightarrow>
                    if length ts > 10 then length c = 10 \<and> mset c \<subseteq># mset ts else c = ts
                | None \<Rightarrow> c = [])
           | _ \<Rightarrow> c = [])
      | Inl _ \<Rightarrow> False)"

text \<open>
  \<open>in_range n ds\<close>: each draw of \<open>ds\<close> is below the size of the pool at its turn
  (\<open>n\<close>, then \<open>n - 1\<close>, and so on).
\<close>

fun in_range :: "nat \<Rightarrow> nat list \<Rightarrow> bool" where
  "in_range n [] = True"
| "in_range n (d # ds) = (d < n \<and> in_range (n - 1) ds)"

text \<open>
  What one title search adds to the result: the first item of a successful search, or
  nothing.
\<close>

definition first_result :: "sp \<Rightarrow> string \<Rightarrow> track list" where
  "first_result self q =
     (case search_tracks self q 1 of
        Inr (Success data _) \<Rightarrow> take 1 (items (result_tracks data)) | _ \<Rightarrow> [])"

subsection \<open>The lookup URL in the words of the specification\<close>




section \<open>Example clients\<close>

definition failing_sp :: sp where
  "failing_sp =
     \<lparr>sp_current_user = Inl (Exception ''offline''),
      sp_current_playback = Inl (Exception ''offline''),
      sp_current_user_playlists = (\<lambda>_ _. Inl (Exception ''offline'')),
      sp_queue = Inl (Exception ''offline''),
      sp_search = (\<lambda>_ _ _. Inl (Exception ''offline'')),
      sp_start_playback = (\<lambda>_ _. Inl (Exception ''offline'')),
      sp_pause_playback = Inl (Exception ''offline''),
      sp_next_track = Inl (Exception ''offline''),
      sp_previous_track = Inl (Exception ''offline''),
      sp_current_user_recently_played = (\<lambda>_. Inl (Exception ''offline'')),
      sp_current_user_top_tracks = (\<lambda>_ _. Inl (Exception ''offline'')),
      sp_user_playlist_create = (\<lambda>_ _ _ _. Inl (Exception ''offline'')),
      sp_playlist_add_items = (\<lambda>_ _. Inl (Exception ''offline'')),
      sp_playlist_tracks = (\<lambda>_ _ _. Inl (Exception ''offline'')),
      sp_devices = Inl (Exception ''offline''),
      sp_transfer_playback = (\<lambda>_ _. Inl (Exception ''offline'')),
      sp_volume = (\<lambda>_. Inl (Exception ''offline'')),
      sp_shuffle = (\<lambda>_. Inl (Exception ''offline'')),
      sp_repeat = (\<lambda>_. Inl (Exception ''offline'')),
      sp_current_user_top_artists = (\<lambda>_ _. Inl (Exception ''offline'')),
      sp_current_user_saved_albums = (\<lambda>_ _. Inl (Exception ''offline'')),
      sp_current_user_saved_tracks = (\<lambda>_ _. Inl (Exception ''offline'')),
      sp_current_user_followed_artists = (\<lambda>_ _ _. Inl (Exception ''offline'')),
      sp_tracks = (\<lambda>_. Inl (Exception ''offline'')),
      sp_album_tracks = (\<lambda>_ _ _. Inl (Exception ''offline''))\<rparr>"

definition radiohead :: artist where
  "radiohead = \<lparr>artist_id = ''4Z8W4fKeB5YxbusRsdQVPb'', artist_name = ''Radiohead''\<rparr>"

definition portishead :: artist where
  "portishead = \<lparr>artist_id = ''6liAMWkVf5LH7YR9yfFy1Y'', artist_name = ''Portishead''\<rparr>"


definition renamed_sp :: sp where
  "renamed_sp =
     failing_sp\<lparr>sp_current_user_top_tracks :=
         (\<lambda>_ _. Inr \<lparr>items = [\<lparr>track_id = ''54X78diSLoUDI3joC2bjMz'',
            track_name = ''Purple Rain'',
            track_artists = [\<lparr>artist_id = ''5a2EaR3hamoenG9rDuVn8j'',
                               artist_name = ''Prince''\<rparr>]\<rparr>]\<rparr>),
       sp_current_user_top_artists :=
         (\<lambda>_ _. Inr \<lparr>items = [\<lparr>artist_id = ''5a2EaR3hamoenG9rDuVn8j'',
                                  artist_name = ''Prince & The Revolution''\<rparr>, portishead]\<rparr>)\<rparr>"

definition saved_page :: "track_item page" where
  "saved_page =
     \<lparr>items = [\<lparr>item_track = \<lparr>track_id = ''6LgJvl0Xdtc73RJ1mmpotq'',
        track_name = ''Paranoid Android'', track_artists = [radiohead]\<rparr>\<rparr>]\<rparr>"

definition limit_sensitive_sp :: sp where
  "limit_sensitive_sp =
     failing_sp\<lparr>sp_current_user_saved_tracks :=
       (\<lambda>limit offset. if limit = 3 \<and> offset = 0 then Inr saved_page
                        else Inl (Exception ''limit not served''))\<rparr>"

definition limit_blind_sp :: sp where
  "limit_blind_sp = failing_sp\<lparr>sp_current_user_saved_tracks := (\<lambda>_ _. Inr saved_page)\<rparr>"

definition creep :: track where
  "creep = \<lparr>track_id = ''70LcF31zb1H0PyJoS1Sx1r'', track_name = ''Creep'',
            track_artists = [radiohead]\<rparr>"

definition creep_sp :: sp where
  "creep_sp =
     failing_sp\<lparr>sp_current_user_top_artists := (\<lambda>_ _. Inr \<lparr>items = [radiohead]\<rparr>),
       sp_search := (\<lambda>q _ _. if q = ''Creep'' \<or> q = ''Creep (Acoustic)''
                               then Inr \<lparr>result_tracks = \<lparr>items = [creep]\<rparr>\<rparr>
                               else Inr \<lparr>result_tracks = \<lparr>items = []\<rparr>\<rparr>)\<rparr>"


definition no_hits_tivo :: tivo where
  "no_hits_tivo =
     \<lparr>get_artist_search = (\<lambda>_. Inr \<lparr>hits = Some []\<rparr>),
      get_discography = (\<lambda>_. Inr \<lparr>hits = Some []\<rparr>),
      get_album = (\<lambda>_. Inr \<lparr>hits = Some []\<rparr>)\<rparr>"


definition discography_tivo :: tivo where
  "discography_tivo =
     no_hits_tivo\<lparr>get_discography :=
       (\<lambda>url. if url = discography_url ''MN0000667669''
               then Inr \<lparr>hits = Some [\<lparr>hit_id = ''MW0000016766''\<rparr>, \<lparr>hit_id = ''MW0000591993''\<rparr>,
                                    \<lparr>hit_id = ''MW0002521195''\<rparr>]\<rparr>
               else if url = discography_url ''MN0000588754''
               then Inr \<lparr>hits = Some [\<lparr>hit_id = ''MW0000038364''\<rparr>]\<rparr>
               else if url = discography_url ''MN0000000001''
               then Inr \<lparr>hits = None\<rparr>
               else Inr \<lparr>hits = Some []\<rparr>)\<rparr>"



definition two_versions_tivo :: tivo where
  "two_versions_tivo =
     \<lparr>get_artist_search = (\<lambda>_. Inr \<lparr>hits = Some [\<lparr>hit_id = ''MN0000326249''\<rparr>]\<rparr>),
      get_discography = (\<lambda>_. Inr \<lparr>hits = Some [\<lparr>hit_id = ''MW0000100069''\<rparr>]\<rparr>),
      get_album = (\<lambda>_. Inr \<lparr>hits = Some [\<lparr>hit_tracks = Some
         [\<lparr>tivo_track_id = ''MT0010452531'', title = ''Creep''\<rparr>,
          \<lparr>tivo_track_id = ''MT0010452543'', title = ''Creep (Acoustic)''\<rparr>]\<rparr>]\<rparr>)\<rparr>"

definition world0 :: world where
  "world0 = \<lparr>rng = sconst 0, http_log = [], search_log = []\<rparr>"


section \<open>Properties\<close>

subsection \<open>Sequencing\<close>

lemma attempt_Inl: "attempt (Inl e) k = Inl e"
  by (simp add: attempt_def)

lemma attempt_Inr: "attempt (Inr v) k = k v"
  by (simp add: attempt_def)

lemma attempt_weak_cong: "c = c' \<Longrightarrow> attempt c k = attempt c' k"
  by simp


lemma returnsE: "returns c \<Longrightarrow> (\<And>v. c = Inr v \<Longrightarrow> P) \<Longrightarrow> P"
  by (cases c) simp_all

lemma reliableD:
  "reliable client \<Longrightarrow> returns (get_artist_search client url)"
  "reliable client \<Longrightarrow> returns (get_discography client url)"
  "reliable client \<Longrightarrow> returns (get_album client url)"
  by (simp_all add: reliable_def)

subsection \<open>The wrappers\<close>

lemma wrapper_eq:
  "try_except (attempt c (\<lambda>v. Inr (Success (f v) (m v)))) (\<lambda>e. Inr (Failure (str e) m'))
     = Inr (case c of Inl e \<Rightarrow> Failure (str e) m' | Inr v \<Rightarrow> Success (f v) (m v))"
  by (cases c) (simp_all add: try_except_def attempt_def)

lemmas wrapper_eq_id = wrapper_eq [where f = "\<lambda>v. v"]

lemma wrapper_enveloped:
  "enveloped c
     (try_except (attempt c (\<lambda>v. Inr (Success (f v) (m v)))) (\<lambda>e. Inr (Failure (str e) m')))"
  by (cases c) (simp_all add: try_except_def attempt_def)

lemma get_user_profile_enveloped:
  "enveloped (sp_current_user self)
     (get_user_profile self)"
  unfolding get_user_profile_def by (rule wrapper_enveloped)

lemma get_current_playback_enveloped:
  "enveloped (sp_current_playback self)
     (get_current_playback self)"
  by (cases "sp_current_playback self")
     (simp_all add: get_current_playback_def try_except_def attempt_def)

lemma get_user_playlists_enveloped:
  "enveloped (sp_current_user_playlists self limit offset)
     (get_user_playlists self limit offset)"
  unfolding get_user_playlists_def by (rule wrapper_enveloped)

lemma get_queue_enveloped:
  "enveloped (sp_queue self)
     (get_queue self)"
  unfolding get_queue_def by (rule wrapper_enveloped)

lemma search_tracks_enveloped:
  "enveloped (sp_search self query ''track'' limit)
     (search_tracks self query limit)"
  unfolding search_tracks_def by (rule wrapper_enveloped)

lemma play_track_enveloped:
  "enveloped (sp_start_playback self None (Some [track_uri]))
     (play_track self track_uri)"
  unfolding play_track_def by (rule wrapper_enveloped)

lemma play_playlist_enveloped:
  "enveloped (sp_start_playback self (Some playlist_uri) None)
     (play_playlist self playlist_uri)"
  unfolding play_playlist_def by (rule wrapper_enveloped)

lemma pause_playback_enveloped:
  "enveloped (sp_pause_playback self)
     (pause_playback self)"
  unfolding pause_playback_def by (rule wrapper_enveloped)

lemma resume_playback_enveloped:
  "enveloped (sp_start_playback self None None)
     (resume_playback self)"
  unfolding resume_playback_def by (rule wrapper_enveloped)

lemma skip_to_next_enveloped:
  "enveloped (sp_next_track self)
     (skip_to_next self)"
  unfolding skip_to_next_def by (rule wrapper_enveloped)

lemma skip_to_previous_enveloped:
  "enveloped (sp_previous_track self)
     (skip_to_previous self)"
  unfolding skip_to_previous_def by (rule wrapper_enveloped)

lemma get_recently_played_enveloped:
  "enveloped (sp_current_user_recently_played self limit)
     (get_recently_played self limit)"
  unfolding get_recently_played_def by (rule wrapper_enveloped)

lemma get_top_tracks_enveloped:
  "enveloped (sp_current_user_top_tracks self time_range limit)
     (get_top_tracks self time_range limit)"
  unfolding get_top_tracks_def by (rule wrapper_enveloped)

lemma create_playlist_enveloped:
  "enveloped (attempt (sp_current_user self) (\<lambda>user.
          sp_user_playlist_create self (user_id user) name description public))
     (create_playlist self name description public)"
proof (cases "sp_current_user self")
  case (Inl e)
  then show ?thesis by (simp add: create_playlist_def try_except_def attempt_def)
next
  case (Inr user)
  then show ?thesis
    by (cases "sp_user_playlist_create self (user_id user) name description public")
       (simp_all add: create_playlist_def try_except_def attempt_def)
qed

lemma add_tracks_to_playlist_enveloped:
  "enveloped (sp_playlist_add_items self pid track_uris)
     (add_tracks_to_playlist self pid track_uris)"
  unfolding add_tracks_to_playlist_def by (rule wrapper_enveloped)

lemma get_playlist_tracks_enveloped:
  "enveloped (sp_playlist_tracks self pid limit offset)
     (get_playlist_tracks self pid limit offset)"
  unfolding get_playlist_tracks_def by (rule wrapper_enveloped)

lemma get_available_devices_enveloped:
  "enveloped (sp_devices self)
     (get_available_devices self)"
  unfolding get_available_devices_def by (rule wrapper_enveloped)

lemma transfer_playback_enveloped:
  "enveloped (sp_transfer_playback self device_id play)
     (transfer_playback self device_id play)"
  unfolding transfer_playback_def by (rule wrapper_enveloped)

lemma set_volume_enveloped:
  "enveloped (sp_volume self volume_percent)
     (set_volume self volume_percent)"
  unfolding set_volume_def by (rule wrapper_enveloped)

lemma toggle_shuffle_enveloped:
  "enveloped (sp_shuffle self state)
     (toggle_shuffle self state)"
  unfolding toggle_shuffle_def by (rule wrapper_enveloped)

lemma set_repeat_mode_enveloped:
  "enveloped (sp_repeat self mode)
     (set_repeat_mode self mode)"
  unfolding set_repeat_mode_def by (rule wrapper_enveloped)

lemma get_top_artists_enveloped:
  "enveloped (sp_current_user_top_artists self time_range limit)
     (get_top_artists self time_range limit)"
  unfolding get_top_artists_def by (rule wrapper_enveloped)

lemma get_saved_albums_enveloped:
  "enveloped (sp_current_user_saved_albums self limit offset)
     (get_saved_albums self limit offset)"
  unfolding get_saved_albums_def by (rule wrapper_enveloped)

lemma get_saved_tracks_enveloped:
  "enveloped (sp_current_user_saved_tracks self limit offset)
     (get_saved_tracks self limit offset)"
  unfolding get_saved_tracks_def by (rule wrapper_enveloped)

lemma get_followed_artists_enveloped:
  "enveloped (sp_current_user_followed_artists self limit ''artist''
          (case after of None \<Rightarrow> None | Some a \<Rightarrow> if a \<noteq> [] then Some a else None))
     (get_followed_artists self limit after)"
  unfolding get_followed_artists_def by (rule wrapper_enveloped)

lemma get_tracks_enveloped:
  "enveloped (sp_tracks self track_ids)
     (get_tracks self track_ids)"
  unfolding get_tracks_def by (rule wrapper_enveloped)

lemma get_album_tracks_enveloped:
  "enveloped (sp_album_tracks self album_id limit offset)
     (get_album_tracks self album_id limit offset)"
  unfolding get_album_tracks_def by (rule wrapper_enveloped)

text \<open>
  Claim C6. Every wrapper of \<open>SpotifyClient\<close> returns an envelope and raises nothing,
  whatever the spotipy call does: when the call raises \<open>e\<close> the envelope is a failure that
  carries \<open>str e\<close>, when it returns the envelope is a success. (\<open>create_playlist\<close> makes
  two calls; either may raise.)
\<close>

theorem wrappers_never_raise:
  "enveloped (sp_current_user self)
     (get_user_profile self) \<and>
   enveloped (sp_current_playback self)
     (get_current_playback self) \<and>
   enveloped (sp_current_user_playlists self limit offset)
     (get_user_playlists self limit offset) \<and>
   enveloped (sp_queue self)
     (get_queue self) \<and>
   enveloped (sp_search self query ''track'' limit)
     (search_tracks self query limit) \<and>
   enveloped (sp_start_playback self None (Some [track_uri]))
     (play_track self track_uri) \<and>
   enveloped (sp_start_playback self (Some playlist_uri) None)
     (play_playlist self playlist_uri) \<and>
   enveloped (sp_pause_playback self)
     (pause_playback self) \<and>
   enveloped (sp_start_playback self None None)
     (resume_playback self) \<and>
   enveloped (sp_next_track self)
     (skip_to_next self) \<and>
   enveloped (sp_previous_track self)
     (skip_to_previous self) \<and>
   enveloped (sp_current_user_recently_played self limit)
     (get_recently_played self limit) \<and>
   enveloped (sp_current_user_top_tracks self time_range limit)
     (get_top_tracks self time_range limit) \<and>
   enveloped (attempt (sp_current_user self) (\<lambda>user.
          sp_user_playlist_create self (user_id user) name description public))
     (create_playlist self name description public) \<and>
   enveloped (sp_playlist_add_items self pid track_uris)
     (add_tracks_to_playlist self pid track_uris) \<and>
   enveloped (sp_playlist_tracks self pid limit offset)
     (get_playlist_tracks self pid limit offset) \<and>
   enveloped (sp_devices self)
     (get_available_devices self) \<and>
   enveloped (sp_transfer_playback self device_id play)
     (transfer_playback self device_id play) \<and>
   enveloped (sp_volume self volume_percent)
     (set_volume self volume_percent) \<and>
   enveloped (sp_shuffle self state)
     (toggle_shuffle self state) \<and>
   enveloped (sp_repeat self mode)
     (set_repeat_mode self mode) \<and>
   enveloped (sp_current_user_top_artists self time_range limit)
     (get_top_artists self time_range limit) \<and>
   enveloped (sp_current_user_saved_albums self limit offset)
     (get_saved_albums self limit offset) \<and>
   enveloped (sp_current_user_saved_tracks self limit offset)
     (get_saved_tracks self limit offset) \<and>
   enveloped (sp_current_user_followed_artists self limit ''artist''
          (case after of None \<Rightarrow> None | Some a \<Rightarrow> if a \<noteq> [] then Some a else None))
     (get_followed_artists self limit after) \<and>
   enveloped (sp_tracks self track_ids)
     (get_tracks self track_ids) \<and>
   enveloped (sp_album_tracks self album_id limit offset)
     (get_album_tracks self album_id limit offset)"
  by (intro conjI get_user_profile_enveloped get_current_playback_enveloped get_user_playlists_enveloped get_queue_enveloped search_tracks_enveloped play_track_enveloped play_playlist_enveloped pause_playback_enveloped resume_playback_enveloped skip_to_next_enveloped skip_to_previous_enveloped get_recently_played_enveloped get_top_tracks_enveloped create_playlist_enveloped add_tracks_to_playlist_enveloped get_playlist_tracks_enveloped get_available_devices_enveloped transfer_playback_enveloped set_volume_enveloped toggle_shuffle_enveloped set_repeat_mode_enveloped get_top_artists_enveloped get_saved_albums_enveloped get_saved_tracks_enveloped get_followed_artists_enveloped get_tracks_enveloped get_album_tracks_enveloped)

lemma get_recently_played_eq:
  "\<exists>m m'. get_recently_played self limit =
     Inr (case sp_current_user_recently_played self limit of Inl e \<Rightarrow> Failure (str e) m' | Inr v \<Rightarrow> Success v (m v))"
  unfolding get_recently_played_def by (intro exI, rule wrapper_eq_id)

lemma get_top_tracks_eq:
  "\<exists>m m'. get_top_tracks self time_range limit =
     Inr (case sp_current_user_top_tracks self time_range limit of Inl e \<Rightarrow> Failure (str e) m' | Inr v \<Rightarrow> Success v (m v))"
  unfolding get_top_tracks_def by (intro exI, rule wrapper_eq_id)

lemma get_top_artists_eq:
  "\<exists>m m'. get_top_artists self time_range limit =
     Inr (case sp_current_user_top_artists self time_range limit of Inl e \<Rightarrow> Failure (str e) m' | Inr v \<Rightarrow> Success v (m v))"
  unfolding get_top_artists_def by (intro exI, rule wrapper_eq_id)

lemma get_user_playlists_eq:
  "\<exists>m m'. get_user_playlists self limit offset =
     Inr (case sp_current_user_playlists self limit offset of Inl e \<Rightarrow> Failure (str e) m' | Inr v \<Rightarrow> Success v (m v))"
  unfolding get_user_playlists_def by (intro exI, rule wrapper_eq_id)

lemma get_playlist_tracks_eq:
  "\<exists>m m'. get_playlist_tracks self pid limit offset =
     Inr (case sp_playlist_tracks self pid limit offset of Inl e \<Rightarrow> Failure (str e) m' | Inr v \<Rightarrow> Success v (m v))"
  unfolding get_playlist_tracks_def by (intro exI, rule wrapper_eq_id)

lemma get_saved_albums_eq:
  "\<exists>m m'. get_saved_albums self limit offset =
     Inr (case sp_current_user_saved_albums self limit offset of Inl e \<Rightarrow> Failure (str e) m' | Inr v \<Rightarrow> Success v (m v))"
  unfolding get_saved_albums_def by (intro exI, rule wrapper_eq_id)

lemma get_saved_tracks_eq:
  "\<exists>m m'. get_saved_tracks self limit offset =
     Inr (case sp_current_user_saved_tracks self limit offset of Inl e \<Rightarrow> Failure (str e) m' | Inr v \<Rightarrow> Success v (m v))"
  unfolding get_saved_tracks_def by (intro exI, rule wrapper_eq_id)

lemma get_followed_artists_eq:
  "\<exists>m m'. get_followed_artists self limit None =
     Inr (case sp_current_user_followed_artists self limit ''artist'' None of Inl e \<Rightarrow> Failure (str e) m' | Inr v \<Rightarrow> Success v (m v))"
  unfolding get_followed_artists_def option.case by (intro exI, rule wrapper_eq_id)

lemma search_tracks_eq:
  "\<exists>m m'. search_tracks self q limit =
     Inr (case sp_search self q ''track'' limit of
            Inl e \<Rightarrow> Failure (str e) m' | Inr v \<Rightarrow> Success v (m v))"
  unfolding search_tracks_def by (intro exI, rule wrapper_eq_id)

subsection \<open>recall_artists\<close>

lemma append_artists_eq:
  "append_artists xs (ids, names) = (ids @ map fst (artist_pairs xs), names @ map snd (artist_pairs xs))"
  by (induction xs arbitrary: ids names) (simp_all add: artist_pairs_def)

lemma append_track_items_eq:
  "append_track_items xs (ids, names) =
     (ids @ map fst (track_item_pairs xs), names @ map snd (track_item_pairs xs))"
  by (induction xs arbitrary: ids names) (simp_all add: track_item_pairs_def append_artists_eq)

lemma append_tracks_eq:
  "append_tracks xs (ids, names) =
     (ids @ map fst (track_pairs xs), names @ map snd (track_pairs xs))"
  by (induction xs arbitrary: ids names) (simp_all add: track_pairs_def append_artists_eq)

lemma append_album_items_eq:
  "append_album_items xs (ids, names) =
     (ids @ map fst (album_item_pairs xs), names @ map snd (album_item_pairs xs))"
  by (induction xs arbitrary: ids names) (simp_all add: album_item_pairs_def append_artists_eq)

lemma dedup_loop_eq:
  "dedup_loop ps (rids, rnames) =
     (rids @ map fst (first_seen (filter (\<lambda>q. fst q \<notin> set rids) ps)),
      rnames @ map snd (first_seen (filter (\<lambda>q. fst q \<notin> set rids) ps)))"
proof (induction ps arbitrary: rids rnames)
  case Nil
  show ?case by simp
next
  case (Cons p ps)
  obtain i n where p: "p = (i, n)" by (cases p)
  have flt: "filter (\<lambda>q. fst q \<noteq> i) (filter (\<lambda>q. fst q \<notin> set rids) ps)
      = filter (\<lambda>q. fst q \<notin> set (rids @ [i])) ps"
    by (induction ps) auto
  show ?case
    using flt by (simp add: p Cons.IH)
qed

lemma first_seen_keys: "fst ` set (first_seen ps) = fst ` set ps"
  by (induction ps rule: first_seen.induct) auto

lemma first_seen_distinct: "distinct (map fst (first_seen ps))"
proof (induction ps rule: first_seen.induct)
  case 1
  show ?case by simp
next
  case (2 p ps)
  have "fst p \<notin> fst ` set (first_seen (filter (\<lambda>q. fst q \<noteq> fst p) ps))"
    unfolding first_seen_keys by auto
  with 2 show ?case by simp
qed

lemma first_seen_map_of: "map_of (first_seen ps) k = map_of ps k"
proof (induction ps rule: first_seen.induct)
  case 1
  show ?case by simp
next
  case (2 p ps)
  have "k \<noteq> fst p \<Longrightarrow> map_of (filter (\<lambda>q. fst q \<noteq> fst p) ps) k = map_of ps k"
    by (induction ps) auto
  with 2 show ?case by (cases p) auto
qed

lemma append_playlists_eq:
  "append_playlists self pls (ids, names) =
     Inr (ids @ map fst (concat (map (playlist_pairs self) pls)),
          names @ map snd (concat (map (playlist_pairs self) pls)))"
proof (induction pls arbitrary: ids names)
  case Nil
  show ?case by simp
next
  case (Cons pl pls)
  obtain m m' where "get_playlist_tracks self (playlist_id pl) 3 0 =
     Inr (case sp_playlist_tracks self (playlist_id pl) 3 0 of
            Inl e \<Rightarrow> Failure (str e) m' | Inr v \<Rightarrow> Success v (m v))"
    using get_playlist_tracks_eq by blast
  then show ?case
    by (cases "sp_playlist_tracks self (playlist_id pl) 3 0")
       (simp_all add: attempt_def playlist_pairs_def append_track_items_eq Cons.IH)
qed

lemma collect_artists_eq:
  "collect_artists self top_limit recent_limit =
     Inr (map fst (seven_sources self top_limit recent_limit),
          map snd (seven_sources self top_limit recent_limit))"
proof -
  obtain m1 m1' where 1: "get_recently_played self recent_limit =
     Inr (case sp_current_user_recently_played self recent_limit of
            Inl e \<Rightarrow> Failure (str e) m1' | Inr v \<Rightarrow> Success v (m1 v))"
    using get_recently_played_eq by blast
  obtain m2 m2' where 2: "get_top_tracks self ''long_term'' top_limit =
     Inr (case sp_current_user_top_tracks self ''long_term'' top_limit of
            Inl e \<Rightarrow> Failure (str e) m2' | Inr v \<Rightarrow> Success v (m2 v))"
    using get_top_tracks_eq by blast
  obtain m3 m3' where 3: "get_top_artists self ''long_term'' top_limit =
     Inr (case sp_current_user_top_artists self ''long_term'' top_limit of
            Inl e \<Rightarrow> Failure (str e) m3' | Inr v \<Rightarrow> Success v (m3 v))"
    using get_top_artists_eq by blast
  obtain m4 m4' where 4: "get_followed_artists self 3 None =
     Inr (case sp_current_user_followed_artists self 3 ''artist'' None of
            Inl e \<Rightarrow> Failure (str e) m4' | Inr v \<Rightarrow> Success v (m4 v))"
    using get_followed_artists_eq by blast
  obtain m5 m5' where 5: "get_user_playlists self 3 0 =
     Inr (case sp_current_user_playlists self 3 0 of
            Inl e \<Rightarrow> Failure (str e) m5' | Inr v \<Rightarrow> Success v (m5 v))"
    using get_user_playlists_eq by blast
  obtain m6 m6' where 6: "get_saved_albums self 3 0 =
     Inr (case sp_current_user_saved_albums self 3 0 of
            Inl e \<Rightarrow> Failure (str e) m6' | Inr v \<Rightarrow> Success v (m6 v))"
    using get_saved_albums_eq by blast
  obtain m7 m7' where 7: "get_saved_tracks self 3 0 =
     Inr (case sp_current_user_saved_tracks self 3 0 of
            Inl e \<Rightarrow> Failure (str e) m7' | Inr v \<Rightarrow> Success v (m7 v))"
    using get_saved_tracks_eq by blast
  show ?thesis
    unfolding collect_artists_def
    by (simp add: attempt_def Let_def seven_sources_def source_pairs_def source_recently_played_def
        source_top_tracks_def source_top_artists_def source_followed_def source_playlists_def
        source_saved_albums_def source_saved_tracks_def append_track_items_eq append_tracks_eq
        append_artists_eq append_album_items_eq append_playlists_eq 1 2 3 4 5 6 7
      split: sum.splits)
qed

lemma recall_artists_eq:
  "recall_artists self top_limit recent_limit playlist_limit album_limit saved_tracks_limit =
     Inr (map fst (first_seen (seven_sources self top_limit recent_limit)),
          map snd (first_seen (seven_sources self top_limit recent_limit)))"
  by (simp add: recall_artists_def collect_artists_eq attempt_def zip_map_fst_snd dedup_loop_eq)

text \<open>
  Claim C2. \<open>recall_artists\<close> never raises and returns the pairs of the seven sources,
  concatenated in the order the sources are queried, with every pair dropped whose id
  occurred earlier: the ids are distinct, they are exactly the ids the sources reported,
  they stand in the order of their first occurrence, and each is paired with the name of
  its first occurrence (\<open>map_of\<close> finds the first pair with a given id), whatever name a
  later occurrence carries.
\<close>

theorem recall_artists_first_occurrence:
  "(let fs = first_seen (seven_sources self top_limit recent_limit) in
      recall_artists self top_limit recent_limit playlist_limit album_limit saved_tracks_limit
        = Inr (map fst fs, map snd fs)
      \<and> distinct (map fst fs)
      \<and> fst ` set fs = fst ` set (seven_sources self top_limit recent_limit)
      \<and> map (map_of (seven_sources self top_limit recent_limit)) (map fst fs)
          = map Some (map snd fs))"
proof -
  define ps where "ps = seven_sources self top_limit recent_limit"
  have "map (map_of ps) (map fst (first_seen ps)) = map Some (map snd (first_seen ps))"
  proof -
    have "map_of ps (fst q) = Some (snd q)" if "q \<in> set (first_seen ps)" for q
    proof -
      have "(fst q, snd q) \<in> set (first_seen ps)"
        using that by simp
      then have "map_of (first_seen ps) (fst q) = Some (snd q)"
        using map_of_eq_Some_iff [OF first_seen_distinct] by blast
      then show ?thesis by (simp add: first_seen_map_of)
    qed
    then show ?thesis by simp
  qed
  then show ?thesis
    unfolding Let_def ps_def
    by (simp add: recall_artists_eq first_seen_distinct first_seen_keys)
qed

theorem recall_artists_first_occurrence_witness:
  "recall_artists renamed_sp 5 5 5 5 5 =
     Inr ([''5a2EaR3hamoenG9rDuVn8j'', ''6liAMWkVf5LH7YR9yfFy1Y''], [''Prince'', ''Portishead''])"
proof -
  have "seven_sources renamed_sp 5 5 =
      [(''5a2EaR3hamoenG9rDuVn8j'', ''Prince''),
       (''5a2EaR3hamoenG9rDuVn8j'', ''Prince & The Revolution''),
       (''6liAMWkVf5LH7YR9yfFy1Y'', ''Portishead'')]"
    by (simp add: seven_sources_def source_pairs_def source_recently_played_def
          source_top_tracks_def source_top_artists_def source_followed_def
          source_playlists_def source_saved_albums_def source_saved_tracks_def
          get_recently_played_def get_top_tracks_def get_top_artists_def
          get_followed_artists_def get_user_playlists_def get_saved_albums_def
          get_saved_tracks_def try_except_def attempt_def renamed_sp_def failing_sp_def
          portishead_def track_pairs_def artist_pairs_def)
  then show ?thesis
    using recall_artists_first_occurrence [of renamed_sp 5 5 5 5 5]
    by (simp add: Let_def)
qed



lemma seven_sources_cong:
  assumes "sp_current_user_recently_played self' recent_limit
             = sp_current_user_recently_played self recent_limit"
    and "sp_current_user_top_tracks self' ''long_term'' top_limit
             = sp_current_user_top_tracks self ''long_term'' top_limit"
    and "sp_current_user_top_artists self' ''long_term'' top_limit
             = sp_current_user_top_artists self ''long_term'' top_limit"
    and "sp_current_user_followed_artists self' 3 ''artist'' None
             = sp_current_user_followed_artists self 3 ''artist'' None"
    and "sp_current_user_playlists self' 3 0 = sp_current_user_playlists self 3 0"
    and "\<forall>pid. sp_playlist_tracks self' pid 3 0 = sp_playlist_tracks self pid 3 0"
    and "sp_current_user_saved_albums self' 3 0 = sp_current_user_saved_albums self 3 0"
    and "sp_current_user_saved_tracks self' 3 0 = sp_current_user_saved_tracks self 3 0"
  shows "seven_sources self' top_limit recent_limit = seven_sources self top_limit recent_limit"
proof -
  have pl: "playlist_pairs self' = playlist_pairs self"
    using assms(6) by (auto simp: fun_eq_iff playlist_pairs_def get_playlist_tracks_def)
  show ?thesis
    unfolding seven_sources_def source_pairs_def source_recently_played_def
      source_top_tracks_def source_top_artists_def source_followed_def source_playlists_def
      source_saved_albums_def source_saved_tracks_def pl
      get_recently_played_def get_top_tracks_def get_top_artists_def get_followed_artists_def
      get_user_playlists_def get_saved_albums_def get_saved_tracks_def option.case
    using assms(1-5,7,8) by simp
qed

text \<open>
  Claim C10. The parameters \<open>playlist_limit\<close>, \<open>album_limit\<close> and \<open>saved_tracks_limit\<close> do
  not reach any call: two calls that differ only in them return the same lists. The
  playlist, playlist-track, saved-album and saved-track queries are made with limit 3 and
  offset 0, so the result is the same for two clients that answer alike to the eight
  queries made, whatever they would answer at other limits.
\<close>

theorem recall_artists_ignores_limits:
  "recall_artists self top_limit recent_limit playlist_limit album_limit saved_tracks_limit
     = recall_artists self top_limit recent_limit playlist_limit' album_limit'
         saved_tracks_limit'
   \<and> (sp_current_user_recently_played self' recent_limit
             = sp_current_user_recently_played self recent_limit
        \<and> sp_current_user_top_tracks self' ''long_term'' top_limit
             = sp_current_user_top_tracks self ''long_term'' top_limit
        \<and> sp_current_user_top_artists self' ''long_term'' top_limit
             = sp_current_user_top_artists self ''long_term'' top_limit
        \<and> sp_current_user_followed_artists self' 3 ''artist'' None
             = sp_current_user_followed_artists self 3 ''artist'' None
        \<and> sp_current_user_playlists self' 3 0 = sp_current_user_playlists self 3 0
        \<and> (\<forall>pid. sp_playlist_tracks self' pid 3 0 = sp_playlist_tracks self pid 3 0)
        \<and> sp_current_user_saved_albums self' 3 0 = sp_current_user_saved_albums self 3 0
        \<and> sp_current_user_saved_tracks self' 3 0 = sp_current_user_saved_tracks self 3 0
      \<longrightarrow> recall_artists self' top_limit recent_limit playlist_limit' album_limit'
            saved_tracks_limit'
          = recall_artists self top_limit recent_limit playlist_limit album_limit
              saved_tracks_limit)"
  using seven_sources_cong [of self' recent_limit self top_limit]
  by (simp add: recall_artists_eq)

theorem recall_artists_ignores_limits_witness:
  "recall_artists limit_sensitive_sp 5 5 1 1 1 = recall_artists limit_blind_sp 5 5 50 50 50
   \<and> recall_artists limit_blind_sp 5 5 50 50 50
       = Inr ([''4Z8W4fKeB5YxbusRsdQVPb''], [''Radiohead''])"
proof -
  have "recall_artists limit_sensitive_sp 5 5 1 1 1 = recall_artists limit_blind_sp 5 5 50 50 50"
    using recall_artists_ignores_limits
      [of limit_blind_sp 5 5 50 50 50 1 1 1 limit_sensitive_sp]
    by (simp add: limit_sensitive_sp_def limit_blind_sp_def failing_sp_def)
  moreover have "recall_artists limit_blind_sp 5 5 50 50 50
       = Inr ([''4Z8W4fKeB5YxbusRsdQVPb''], [''Radiohead''])"
    by (simp add: recall_artists_def collect_artists_def limit_blind_sp_def failing_sp_def
          get_recently_played_def get_top_tracks_def get_top_artists_def
          get_followed_artists_def get_user_playlists_def get_saved_albums_def
          get_saved_tracks_def try_except_def attempt_def saved_page_def radiohead_def)
  ultimately show ?thesis by simp
qed

subsection \<open>Sampling and shuffling\<close>

lemma pool_step_mset:
  assumes "j < length pool"
  shows "add_mset (pool ! j) (mset (butlast (pool[j := last pool]))) = mset pool"
proof (cases pool rule: rev_cases)
  case Nil
  with assms show ?thesis by simp
next
  case (snoc xs l)
  show ?thesis
  proof (cases "j = length xs")
    case True
    then show ?thesis by (simp add: snoc)
  next
    case False
    with assms snoc have j: "j < length xs" by simp
    then show ?thesis
      by (simp add: snoc list_update_append nth_append mset_update)
  qed
qed

lemma fst_sample_pool_Suc:
  "fst (sample_pool (Suc k) pool g) =
     pool ! (shd g mod length pool)
       # fst (sample_pool k (butlast (pool[shd g mod length pool := last pool])) (stl g))"
  by (simp add: randbelow_def split: prod.splits)

lemma snd_sample_pool_Suc:
  "snd (sample_pool (Suc k) pool g) =
     snd (sample_pool k (butlast (pool[shd g mod length pool := last pool])) (stl g))"
  by (simp add: randbelow_def split: prod.splits)

lemma fst_sample_pool_numeral:
  "fst (sample_pool (numeral k) pool g) =
     pool ! (shd g mod length pool)
       # fst (sample_pool (pred_numeral k)
                (butlast (pool[shd g mod length pool := last pool])) (stl g))"
  by (simp add: numeral_eq_Suc fst_sample_pool_Suc del: sample_pool.simps(2))

lemma snd_sample_pool_numeral:
  "snd (sample_pool (numeral k) pool g) =
     snd (sample_pool (pred_numeral k)
            (butlast (pool[shd g mod length pool := last pool])) (stl g))"
  by (simp add: numeral_eq_Suc snd_sample_pool_Suc del: sample_pool.simps(2))

lemmas sample_pool_eval =
  fst_sample_pool_numeral snd_sample_pool_numeral fst_sample_pool_Suc snd_sample_pool_Suc

lemma sample_pool_length: "length (fst (sample_pool k pool g)) = k"
  by (induction k arbitrary: pool g) (simp_all add: fst_sample_pool_Suc del: sample_pool.simps(2))

lemma sample_pool_mset:
  "k \<le> length pool \<Longrightarrow> mset (fst (sample_pool k pool g)) \<subseteq># mset pool"
proof (induction k arbitrary: pool g)
  case 0
  show ?case by simp
next
  case (Suc k)
  define j where "j = shd g mod length pool"
  define pool' where "pool' = butlast (pool[j := last pool])"
  from Suc.prems have ne: "0 < length pool" by (cases pool) simp_all
  then have j: "j < length pool" by (simp add: j_def)
  have "k \<le> length pool'" using Suc.prems by (simp add: pool'_def)
  then have "mset (fst (sample_pool k pool' (stl g))) \<subseteq># mset pool'"
    by (rule Suc.IH)
  then have "add_mset (pool ! j) (mset (fst (sample_pool k pool' (stl g))))
      \<subseteq># add_mset (pool ! j) (mset pool')"
    by simp
  also have "\<dots> = mset pool"
    unfolding pool'_def using j by (rule pool_step_mset)
  finally show ?case
    by (simp add: fst_sample_pool_Suc j_def pool'_def del: sample_pool.simps(2))
qed

lemma random_sample_ok:
  assumes "0 \<le> k" "k \<le> int (length population)"
  shows "\<exists>chosen g'. random_sample population k g = Inr (chosen, g')
     \<and> length chosen = nat k \<and> mset chosen \<subseteq># mset population"
proof -
  have "nat k \<le> length population" using assms by simp
  then have "mset (fst (sample_pool (nat k) population g)) \<subseteq># mset population"
    by (rule sample_pool_mset)
  then show ?thesis
    using assms sample_pool_length [of "nat k" population g]
    by (cases "sample_pool (nat k) population g") (simp add: random_sample_def)
qed

lemma sample_pool_map:
  "k \<le> length pool \<Longrightarrow>
     sample_pool k (map f pool) g
       = (map f (fst (sample_pool k pool g)), snd (sample_pool k pool g))"
proof (induction k arbitrary: pool g)
  case 0
  show ?case by simp
next
  case (Suc k)
  define j where "j = shd g mod length pool"
  from Suc.prems have ne: "pool \<noteq> []" by (cases pool) simp_all
  then have j: "j < length pool" by (simp add: j_def)
  define pool' where "pool' = butlast (pool[j := last pool])"
  have k: "k \<le> length pool'" using Suc.prems by (simp add: pool'_def)
  have m: "butlast ((map f pool)[j := last (map f pool)]) = map f pool'"
    using ne by (simp add: pool'_def last_map map_update map_butlast)
  show ?case
    using j by (simp add: randbelow_def j_def [symmetric] m pool'_def [symmetric]
        Suc.IH [OF k] split: prod.splits)
qed

lemma sample_pool_positions:
  assumes "k \<le> length xs"
  shows "sample_pool k xs g
     = (map ((!) xs) (fst (sample_pool k [0..<length xs] g)),
        snd (sample_pool k [0..<length xs] g))"
proof -
  have "sample_pool k (map ((!) xs) [0..<length xs]) g
     = (map ((!) xs) (fst (sample_pool k [0..<length xs] g)),
        snd (sample_pool k [0..<length xs] g))"
    using assms by (intro sample_pool_map) simp
  then show ?thesis by (simp add: map_nth)
qed

lemma random_sample_positions:
  assumes "0 \<le> k" "k \<le> int (length ts)"
  shows "random_sample ts k g =
     Inr (map ((!) ts) (fst (sample_pool (nat k) [0..<length ts] g)),
          snd (sample_pool (nat k) [0..<length ts] g))"
proof -
  have "nat k \<le> length ts" using assms by simp
  from sample_pool_positions [OF this] show ?thesis
    using assms by (simp add: random_sample_def)
qed

lemma pool_step_distinct:
  assumes "distinct pool" "j < length pool"
  shows "distinct (butlast (pool[j := last pool]))"
    and "set (butlast (pool[j := last pool])) = set pool - {pool ! j}"
proof -
  define pool' where "pool' = butlast (pool[j := last pool])"
  have m: "mset (pool ! j # pool') = mset pool"
    using pool_step_mset [OF assms(2)] by (simp add: pool'_def)
  from mset_eq_imp_distinct_iff [OF m] assms(1) have d: "distinct (pool ! j # pool')"
    by simp
  from m have "set (pool ! j # pool') = set pool" by (rule mset_eq_setD)
  with d show "distinct (butlast (pool[j := last pool]))"
    and "set (butlast (pool[j := last pool])) = set pool - {pool ! j}"
    by (auto simp: pool'_def)
qed

lemma sample_pool_draws:
  "snd (sample_pool (length ds) pool (ds @- g)) = g"
  by (induction ds arbitrary: pool)
     (simp_all add: snd_sample_pool_Suc del: sample_pool.simps(2))

lemma sample_pool_one_to_one:
  assumes "distinct pool" "length sel \<le> length pool" "distinct sel" "set sel \<subseteq> set pool"
  shows "\<exists>!ds. length ds = length sel \<and> in_range (length pool) ds
           \<and> fst (sample_pool (length sel) pool (ds @- g)) = sel"
  using assms
proof (induction sel arbitrary: pool)
  case Nil
  show ?case by auto
next
  case (Cons s sel)
  from Cons.prems obtain j where j: "j < length pool" and s: "pool ! j = s"
    by (auto simp: in_set_conv_nth)
  define pool' where "pool' = butlast (pool[j := last pool])"
  have d': "distinct pool'" and s': "set pool' = set pool - {s}"
    using pool_step_distinct [OF Cons.prems(1) j] by (simp_all add: pool'_def s)
  have l': "length pool' = length pool - 1" by (simp add: pool'_def)
  have "\<exists>!ds. length ds = length sel \<and> in_range (length pool') ds
           \<and> fst (sample_pool (length sel) pool' (ds @- g)) = sel"
    using Cons.prems d' s' l' by (intro Cons.IH) auto
  then obtain ds where ds: "length ds = length sel" "in_range (length pool') ds"
      "fst (sample_pool (length sel) pool' (ds @- g)) = sel"
    and uniq: "\<And>es. length es = length sel \<Longrightarrow> in_range (length pool') es
        \<Longrightarrow> fst (sample_pool (length sel) pool' (es @- g)) = sel \<Longrightarrow> es = ds"
    by blast
  show ?case
  proof (rule ex1I [of _ "j # ds"])
    show "length (j # ds) = length (s # sel) \<and> in_range (length pool) (j # ds)
        \<and> fst (sample_pool (length (s # sel)) pool ((j # ds) @- g)) = s # sel"
      using ds j s by (simp add: l' fst_sample_pool_Suc pool'_def
          del: sample_pool.simps(2))
  next
    fix es
    assume es: "length es = length (s # sel) \<and> in_range (length pool) es
        \<and> fst (sample_pool (length (s # sel)) pool (es @- g)) = s # sel"
    then obtain e es' where e: "es = e # es'" by (cases es) auto
    from es have el: "e < length pool" and r: "in_range (length pool') es'"
      and len: "length es' = length sel"
      by (simp_all add: e l')
    from es have whole: "fst (sample_pool (Suc (length sel)) pool ((e # es') @- g)) = s # sel"
      by (simp add: e)
    from whole el have "pool ! e = s"
      by (simp add: fst_sample_pool_Suc del: sample_pool.simps(2))
    with s have "pool ! e = pool ! j" by simp
    with nth_eq_iff_index_eq [OF Cons.prems(1) el j] have ej: "e = j"
      by simp
    from whole j have "fst (sample_pool (length sel) pool' (es' @- g)) = sel"
      by (simp add: ej fst_sample_pool_Suc pool'_def del: sample_pool.simps(2))
    from uniq [OF len r this] show "es = j # ds" by (simp add: e ej)
  qed
qed

lemma sample_pool_arrangements:
  assumes "length sel \<le> n" "distinct sel" "set sel \<subseteq> {..<n}"
  shows "\<exists>!ds. length ds = length sel \<and> in_range n ds
           \<and> fst (sample_pool (length sel) [0..<n] (ds @- g)) = sel"
  using sample_pool_one_to_one [of "[0..<n]" sel g] assms by (simp add: subset_iff)

lemma shuffle_loop_Suc:
  "shuffle_loop (Suc i) x g =
     shuffle_loop i
       (x[Suc i := x ! (shd g mod (Suc i + 1)), shd g mod (Suc i + 1) := x ! Suc i]) (stl g)"
  by (simp add: randbelow_def)



lemma random_shuffle_Nil: "fst (random_shuffle [] g) = []"
  by (simp add: random_shuffle_def)


subsection \<open>The catalogue client\<close>

lemma artist_ids_loop_eq:
  assumes "\<forall>n \<in> set artist_names. returns (get_artist_search client (artist_search_url n))"
  shows "artist_ids_loop client artist_names acc w =
     Inr (acc @ concat (map (\<lambda>n. first_hit_ids (get_artist_search client (artist_search_url n)))
                         artist_names),
          w\<lparr>http_log := http_log w @ map artist_search_url artist_names\<rparr>)"
  using assms
proof (induction artist_names arbitrary: acc w)
  case Nil
  show ?case by simp
next
  case (Cons n rest)
  from Cons.prems obtain data where
    data: "get_artist_search client (artist_search_url n) = Inr data"
    by (auto elim: returnsE)
  from Cons.prems have rest: "\<forall>n \<in> set rest. returns (get_artist_search client (artist_search_url n))"
    by simp
  show ?case
    by (simp add: data attempt_def first_hit_ids_def Cons.IH [OF rest]
          split: option.splits list.splits)
qed




lemma artist_album_ids_loop_eq:
  assumes "\<forall>a \<in> set artist_ids. returns (get_discography client (discography_url a))"
  shows "\<exists>d. artist_album_ids_loop client artist_ids d0 w =
           Inr (d, w\<lparr>http_log := http_log w @ map discography_url artist_ids\<rparr>)
     \<and> (\<forall>a. map_of d a =
           (if a \<in> set artist_ids \<and> has_hits (get_discography client (discography_url a))
            then Some (album_ids_of (get_discography client (discography_url a)))
            else map_of d0 a))
     \<and> (distinct (map fst d0) \<longrightarrow> distinct (map fst d))"
  using assms
proof (induction artist_ids arbitrary: d0 w)
  case Nil
  show ?case by simp
next
  case (Cons a rest)
  from Cons.prems obtain data where
    data: "get_discography client (discography_url a) = Inr data"
    by (auto elim: returnsE)
  from Cons.prems have rest:
    "\<forall>a \<in> set rest. returns (get_discography client (discography_url a))"
    by simp
  define w1 where "w1 = w\<lparr>http_log := http_log w @ [discography_url a]\<rparr>"
  have log: "w1\<lparr>http_log := http_log w1 @ map discography_url rest\<rparr>
      = w\<lparr>http_log := http_log w @ map discography_url (a # rest)\<rparr>"
    by (simp add: w1_def)
  show ?case
  proof (cases "has_hits (get_discography client (discography_url a))")
    case True
    then obtain h hs where hs: "hits data = Some (h # hs)"
      by (auto simp: has_hits_def data split: option.splits list.splits)
    define d1 where "d1 = AList.update a (map hit_id (take 2 (h # hs))) d0"
    have step: "artist_album_ids_loop client (a # rest) d0 w
        = artist_album_ids_loop client rest d1 w1"
      by (simp add: data attempt_def hs d1_def w1_def)
    from Cons.IH [OF rest, of d1 w1] obtain d where
      d: "artist_album_ids_loop client rest d1 w1 =
           Inr (d, w1\<lparr>http_log := http_log w1 @ map discography_url rest\<rparr>)"
      and m: "\<forall>x. map_of d x =
           (if x \<in> set rest \<and> has_hits (get_discography client (discography_url x))
            then Some (album_ids_of (get_discography client (discography_url x)))
            else map_of d1 x)"
      and dist: "distinct (map fst d1) \<longrightarrow> distinct (map fst d)"
      by blast
    have d1: "map_of d1 x = (if x = a then Some (album_ids_of (get_discography client (discography_url a)))
                 else map_of d0 x)" for x
      by (simp add: d1_def update_conv album_ids_of_def data hs)
    have "distinct (map fst d0) \<longrightarrow> distinct (map fst d1)"
      by (simp add: d1_def distinct_update)
    with dist have dist': "distinct (map fst d0) \<longrightarrow> distinct (map fst d)" by blast
    have res: "artist_album_ids_loop client (a # rest) d0 w =
        Inr (d, w\<lparr>http_log := http_log w @ map discography_url (a # rest)\<rparr>)"
      by (simp only: step d log)
    have "\<forall>x. map_of d x =
           (if x \<in> set (a # rest) \<and> has_hits (get_discography client (discography_url x))
            then Some (album_ids_of (get_discography client (discography_url x)))
            else map_of d0 x)"
      using m d1 True by auto
    with res dist' show ?thesis by blast
  next
    case False
    have step: "artist_album_ids_loop client (a # rest) d0 w
        = artist_album_ids_loop client rest d0 w1"
      using False
      by (simp add: data attempt_def has_hits_def w1_def split: option.splits list.splits)
    from Cons.IH [OF rest, of d0 w1] obtain d where
      d: "artist_album_ids_loop client rest d0 w1 =
           Inr (d, w1\<lparr>http_log := http_log w1 @ map discography_url rest\<rparr>)"
      and m: "\<forall>x. map_of d x =
           (if x \<in> set rest \<and> has_hits (get_discography client (discography_url x))
            then Some (album_ids_of (get_discography client (discography_url x)))
            else map_of d0 x)"
      and dist: "distinct (map fst d0) \<longrightarrow> distinct (map fst d)"
      by blast
    have res: "artist_album_ids_loop client (a # rest) d0 w =
        Inr (d, w\<lparr>http_log := http_log w @ map discography_url (a # rest)\<rparr>)"
      by (simp only: step d log)
    have "\<forall>x. map_of d x =
           (if x \<in> set (a # rest) \<and> has_hits (get_discography client (discography_url x))
            then Some (album_ids_of (get_discography client (discography_url x)))
            else map_of d0 x)"
      using m False by auto
    with res dist show ?thesis by blast
  qed
qed

text \<open>
  Claim C3. When no lookup raises, \<open>get_tivo_artist_album_ids\<close> returns a dictionary in
  which every list of album ids has one or two entries (the ids of the first two hits);
  its keys are exactly the artist ids of the input whose lookup has a hit, each once; an
  artist id whose \<^verbatim>\<open>hits\<close> is null or empty is not a key.
\<close>

theorem get_tivo_artist_album_ids_capped:
  "(\<forall>a \<in> set artist_ids. returns (get_discography client (discography_url a)))
   \<longrightarrow> (\<exists>d. get_tivo_artist_album_ids client artist_ids w =
             Inr (d, w\<lparr>http_log := http_log w @ map discography_url artist_ids\<rparr>)
         \<and> (\<forall>(a, albums) \<in> set d. albums \<noteq> [] \<and> length albums \<le> 2
               \<and> albums = album_ids_of (get_discography client (discography_url a)))
         \<and> (\<forall>a. a \<in> fst ` set d \<longleftrightarrow>
                a \<in> set artist_ids \<and> has_hits (get_discography client (discography_url a)))
         \<and> distinct (map fst d))"
proof
  assume ok: "\<forall>a \<in> set artist_ids. returns (get_discography client (discography_url a))"
  from artist_album_ids_loop_eq [OF ok, of "[]" w] obtain d where
    d: "artist_album_ids_loop client artist_ids [] w =
           Inr (d, w\<lparr>http_log := http_log w @ map discography_url artist_ids\<rparr>)"
    and m: "\<forall>a. map_of d a =
           (if a \<in> set artist_ids \<and> has_hits (get_discography client (discography_url a))
            then Some (album_ids_of (get_discography client (discography_url a)))
            else None)"
    and dist: "distinct (map fst d)"
    by auto
  have nonempty: "album_ids_of r \<noteq> [] \<and> length (album_ids_of r) \<le> 2" if "has_hits r"
    for r :: "exn + tivo_hit lookup"
    using that by (auto simp: has_hits_def album_ids_of_def split: sum.splits option.splits list.splits)
  have entries: "albums \<noteq> [] \<and> length albums \<le> 2
      \<and> albums = album_ids_of (get_discography client (discography_url a))"
    if "(a, albums) \<in> set d" for a albums
  proof -
    from that dist have "map_of d a = Some albums" by simp
    with m have h: "has_hits (get_discography client (discography_url a))"
      and a: "albums = album_ids_of (get_discography client (discography_url a))"
      by (auto split: if_splits)
    from nonempty [OF h] a show ?thesis by simp
  qed
  have keys: "a \<in> fst ` set d \<longleftrightarrow>
      a \<in> set artist_ids \<and> has_hits (get_discography client (discography_url a))" for a
  proof -
    have "a \<in> fst ` set d \<longleftrightarrow> map_of d a \<noteq> None"
      by (simp add: map_of_eq_None_iff)
    then show ?thesis using m by simp
  qed
  show "\<exists>d. get_tivo_artist_album_ids client artist_ids w =
             Inr (d, w\<lparr>http_log := http_log w @ map discography_url artist_ids\<rparr>)
         \<and> (\<forall>(a, albums) \<in> set d. albums \<noteq> [] \<and> length albums \<le> 2
               \<and> albums = album_ids_of (get_discography client (discography_url a)))
         \<and> (\<forall>a. a \<in> fst ` set d \<longleftrightarrow>
                a \<in> set artist_ids \<and> has_hits (get_discography client (discography_url a)))
         \<and> distinct (map fst d)"
  proof (intro exI [of _ d] conjI)
    show "get_tivo_artist_album_ids client artist_ids w =
             Inr (d, w\<lparr>http_log := http_log w @ map discography_url artist_ids\<rparr>)"
      unfolding get_tivo_artist_album_ids_def by (rule d)
    show "\<forall>(a, albums) \<in> set d. albums \<noteq> [] \<and> length albums \<le> 2
               \<and> albums = album_ids_of (get_discography client (discography_url a))"
      using entries by blast
    show "\<forall>a. a \<in> fst ` set d \<longleftrightarrow>
                a \<in> set artist_ids \<and> has_hits (get_discography client (discography_url a))"
      using keys by blast
    show "distinct (map fst d)" by (rule dist)
  qed
qed

theorem get_tivo_artist_album_ids_capped_witness:
  "returns (get_discography discography_tivo (discography_url ''MN0000667669'')) \<and>
   returns (get_discography discography_tivo (discography_url ''MN0000000001'')) \<and>
   returns (get_discography discography_tivo (discography_url ''MN0000000002'')) \<and>
   returns (get_discography discography_tivo (discography_url ''MN0000588754''))
   \<and> get_tivo_artist_album_ids discography_tivo
         [''MN0000667669'', ''MN0000000001'', ''MN0000000002'', ''MN0000588754''] world0 =
       Inr ([(''MN0000667669'', [''MW0000016766'', ''MW0000591993'']),
             (''MN0000588754'', [''MW0000038364''])],
            world0\<lparr>http_log :=
              [discography_url ''MN0000667669'', discography_url ''MN0000000001'',
               discography_url ''MN0000000002'', discography_url ''MN0000588754'']\<rparr>)"
proof -
  have h: "\<forall>a \<in> set [''MN0000667669'', ''MN0000000001'', ''MN0000000002'', ''MN0000588754''].
       returns (get_discography discography_tivo (discography_url a))"
    by (simp add: discography_tivo_def no_hits_tivo_def)
  have "get_tivo_artist_album_ids discography_tivo
         [''MN0000667669'', ''MN0000000001'', ''MN0000000002'', ''MN0000588754''] world0 =
       Inr ([(''MN0000667669'', [''MW0000016766'', ''MW0000591993'']),
             (''MN0000588754'', [''MW0000038364''])],
            world0\<lparr>http_log :=
              [discography_url ''MN0000667669'', discography_url ''MN0000000001'',
               discography_url ''MN0000000002'', discography_url ''MN0000588754'']\<rparr>)"
    by (simp add: get_tivo_artist_album_ids_def attempt_def discography_tivo_def
          no_hits_tivo_def world0_def discography_url_def)
  with h show ?thesis
    using get_tivo_artist_album_ids_capped
      [of "[''MN0000667669'', ''MN0000000001'', ''MN0000000002'', ''MN0000588754'']"
          discography_tivo world0]
    by simp
qed

lemma tracks_in_albums_loop_eq:
  assumes "\<forall>a \<in> set album_ids. returns (get_album client (album_url a))"
  shows "\<exists>cs w'. tracks_in_albums_loop client album_ids acc w = Inr (acc @ concat cs, w')
     \<and> list_all2 (\<lambda>a c. contribution_ok (get_album client (album_url a)) c) album_ids cs
     \<and> http_log w' = http_log w @ map album_url album_ids
     \<and> search_log w' = search_log w"
  using assms
proof (induction album_ids arbitrary: acc w)
  case Nil
  show ?case by simp
next
  case (Cons a rest)
  from Cons.prems obtain data where data: "get_album client (album_url a) = Inr data"
    by (auto elim: returnsE)
  from Cons.prems have rest: "\<forall>a \<in> set rest. returns (get_album client (album_url a))"
    by simp
  define w1 where "w1 = w\<lparr>http_log := http_log w @ [album_url a]\<rparr>"
  have "\<exists>c g. tracks_in_albums_loop client (a # rest) acc w
          = tracks_in_albums_loop client rest (acc @ c) (w1\<lparr>rng := g\<rparr>)
        \<and> contribution_ok (get_album client (album_url a)) c"
  proof (cases "hits data")
    case None
    then have "tracks_in_albums_loop client (a # rest) acc w
          = tracks_in_albums_loop client rest (acc @ []) (w1\<lparr>rng := rng w1\<rparr>)"
      by (simp add: data attempt_def w1_def)
    moreover have "contribution_ok (get_album client (album_url a)) []"
      by (simp add: contribution_ok_def data None)
    ultimately show ?thesis by blast
  next
    case (Some hs)
    show ?thesis
    proof (cases hs)
      case Nil
      then have "tracks_in_albums_loop client (a # rest) acc w
          = tracks_in_albums_loop client rest (acc @ []) (w1\<lparr>rng := rng w1\<rparr>)"
        by (simp add: data attempt_def w1_def Some)
      moreover have "contribution_ok (get_album client (album_url a)) []"
        by (simp add: contribution_ok_def data Some Nil)
      ultimately show ?thesis by blast
    next
      case (Cons h hs')
      show ?thesis
      proof (cases "hit_tracks h")
        case None
        then have "tracks_in_albums_loop client (a # rest) acc w
            = tracks_in_albums_loop client rest (acc @ []) (w1\<lparr>rng := rng w1\<rparr>)"
          by (simp add: data attempt_def w1_def Some Cons)
        moreover have "contribution_ok (get_album client (album_url a)) []"
          by (simp add: contribution_ok_def data Some Cons None)
        ultimately show ?thesis by blast
      next
        case ts: (Some ts)
        show ?thesis
        proof (cases "length ts > 10")
          case True
          then have "(0::int) \<le> 10" "10 \<le> int (length ts)" by simp_all
          from random_sample_ok [OF this, of "rng w1"] obtain chosen g where
            smp: "random_sample ts 10 (rng w1) = Inr (chosen, g)"
            and len: "length chosen = 10" and sub: "mset chosen \<subseteq># mset ts"
            by auto
          have "tracks_in_albums_loop client (a # rest) acc w
              = tracks_in_albums_loop client rest (acc @ chosen) (w1\<lparr>rng := g\<rparr>)"
            using True smp by (simp add: data attempt_def w1_def Some Cons ts)
          moreover have "contribution_ok (get_album client (album_url a)) chosen"
            using True len sub by (simp add: contribution_ok_def data Some Cons ts)
          ultimately show ?thesis by blast
        next
          case False
          then have "tracks_in_albums_loop client (a # rest) acc w
              = tracks_in_albums_loop client rest (acc @ ts) (w1\<lparr>rng := rng w1\<rparr>)"
            by (simp add: data attempt_def w1_def Some Cons ts)
          moreover have "contribution_ok (get_album client (album_url a)) ts"
            using False by (simp add: contribution_ok_def data Some Cons ts)
          ultimately show ?thesis by blast
        qed
      qed
    qed
  qed
  then obtain c g where
    step: "tracks_in_albums_loop client (a # rest) acc w
          = tracks_in_albums_loop client rest (acc @ c) (w1\<lparr>rng := g\<rparr>)"
    and c: "contribution_ok (get_album client (album_url a)) c"
    by blast
  from Cons.IH [OF rest, of "acc @ c" "w1\<lparr>rng := g\<rparr>"] obtain cs w' where
    r: "tracks_in_albums_loop client rest (acc @ c) (w1\<lparr>rng := g\<rparr>)
          = Inr ((acc @ c) @ concat cs, w')"
    and cs: "list_all2 (\<lambda>a c. contribution_ok (get_album client (album_url a)) c) rest cs"
    and hl: "http_log w' = http_log (w1\<lparr>rng := g\<rparr>) @ map album_url rest"
    and sl: "search_log w' = search_log (w1\<lparr>rng := g\<rparr>)"
    by blast
  have "tracks_in_albums_loop client (a # rest) acc w = Inr (acc @ concat (c # cs), w')"
    by (simp only: step r) simp
  moreover have "list_all2 (\<lambda>a c. contribution_ok (get_album client (album_url a)) c)
       (a # rest) (c # cs)"
    using c cs by simp
  moreover have "http_log w' = http_log w @ map album_url (a # rest)"
    using hl by (simp add: w1_def)
  moreover have "search_log w' = search_log w"
    using sl by (simp add: w1_def)
  ultimately show ?case by blast
qed



subsection \<open>The two pipelines\<close>


lemma fill_search_loop_eq:
  "fill_search_loop self titles (ts, ids, names) w =
     Inr ((ts @ concat (map (first_result self) titles),
           ids @ map track_id (concat (map (first_result self) titles)),
           names @ map (\<lambda>t. join '', '' (map artist_name (track_artists t)))
                     (concat (map (first_result self) titles))),
          w\<lparr>search_log := search_log w @ titles\<rparr>)"
proof (induction titles arbitrary: ts ids names w)
  case Nil
  show ?case by simp
next
  case (Cons q rest)
  obtain m m' where s: "search_tracks self q 1 =
     Inr (case sp_search self q ''track'' 1 of
            Inl e \<Rightarrow> Failure (str e) m' | Inr v \<Rightarrow> Success v (m v))"
    using search_tracks_eq by blast
  show ?case
    by (simp add: Let_def s attempt_Inr first_result_def Cons.IH
          split: sum.splits list.splits)
qed

lemma get_tivo_artist_ids_reliable:
  assumes "reliable client"
  shows "\<exists>ids. get_tivo_artist_ids client names w =
     Inr (ids, w\<lparr>http_log := http_log w @ map artist_search_url names\<rparr>)"
  using artist_ids_loop_eq [of names client "[]" w] assms
  by (simp add: get_tivo_artist_ids_def reliableD)

lemma get_tivo_artist_album_ids_reliable:
  assumes "reliable client"
  shows "\<exists>d. get_tivo_artist_album_ids client ids w =
     Inr (d, w\<lparr>http_log := http_log w @ map discography_url ids\<rparr>)"
proof -
  have "\<forall>a \<in> set ids. returns (get_discography client (discography_url a))"
    using assms by (simp add: reliableD)
  from artist_album_ids_loop_eq [OF this, of "[]" w] show ?thesis
    unfolding get_tivo_artist_album_ids_def by blast
qed

lemma tracks_in_dict_loop_reliable:
  assumes "reliable client"
  shows "\<exists>ts w'. tracks_in_dict_loop client d acc w = Inr (ts, w')
     \<and> search_log w' = search_log w"
proof (induction d arbitrary: acc w)
  case Nil
  show ?case by simp
next
  case (Cons p rest)
  obtain a album_ids where p: "p = (a, album_ids)" by (cases p)
  have "\<forall>a \<in> set album_ids. returns (get_album client (album_url a))"
    using assms by (simp add: reliableD)
  from tracks_in_albums_loop_eq [OF this, of "[]" w] obtain found w1 where
    f: "get_tivo_tracks_in_albums client album_ids w = Inr (found, w1)"
    and sl: "search_log w1 = search_log w"
    unfolding get_tivo_tracks_in_albums_def by auto
  from Cons.IH [of "acc @ found" w1] obtain ts w' where
    r: "tracks_in_dict_loop client rest (acc @ found) w1 = Inr (ts, w')"
    and sl': "search_log w' = search_log w1"
    by blast
  have "tracks_in_dict_loop client (p # rest) acc w = Inr (ts, w')"
    by (simp add: p f attempt_Inr r)
  with sl sl' show ?case by simp
qed

lemma get_tivo_tracks_in_artist_album_dict_reliable:
  assumes "reliable client"
  shows "\<exists>ts w'. get_tivo_tracks_in_artist_album_dict client d w = Inr (ts, w')
     \<and> search_log w' = search_log w"
  unfolding get_tivo_tracks_in_artist_album_dict_def
  by (rule tracks_in_dict_loop_reliable [OF assms])

lemmas pipeline_eval =
  recall_artists_def collect_artists_def get_recently_played_def get_top_tracks_def
  get_top_artists_def get_followed_artists_def get_user_playlists_def get_saved_albums_def
  get_saved_tracks_def search_tracks_def try_except_def attempt_Inl attempt_Inr
  get_tivo_artist_ids_def get_tivo_artist_album_ids_def
  get_tivo_tracks_in_artist_album_dict_def get_tivo_tracks_in_albums_def
  random_shuffle_def shuffle_loop_Suc random_sample_def split_beta Let_def
  fst_sample_pool_numeral snd_sample_pool_numeral fst_sample_pool_Suc snd_sample_pool_Suc
  failing_sp_def radiohead_def world0_def artist_search_url_def discography_url_def
  album_url_def replace_space_def

text \<open>
  Claim C1. The search loop of \<open>recall_all_tracks\<close> tests the id of each first result
  against \<^verbatim>\<open>search_track_ids\<close>, a list that stays empty, so no result is ever skipped.
  When the catalogue lists the titles ``Creep'' and ``Creep (Acoustic)'' and the search
  answers both with the same track, the returned list holds this track twice.
\<close>

theorem recall_all_tracks_keeps_duplicates:
  "map_sum id fst (recall_all_tracks creep_sp two_versions_tivo world0) =
     Inr (Success \<lparr>data_tracks = [creep, creep], data_track_ids = None,
                   data_artist_names = None\<rparr> ''Successfully recall tracks'')
   \<and> \<not> distinct (map track_id [creep, creep])"
  by (simp add: recall_all_tracks_def pipeline_eval creep_sp_def two_versions_tivo_def
        str_nat.simps
        del: shuffle_loop.simps(2) sample_pool.simps(2) cong: attempt_weak_cong)





lemma random_fill_stages:
  assumes "reliable client"
  obtains names ids w1 d w2 cands w3 where
    "recall_artists self 5 5 5 5 5
       = Inr (map fst (first_seen (seven_sources self 5 5)), names)"
    "get_tivo_artist_ids client names w = Inr (ids, w1)"
    "w1 = w\<lparr>http_log := http_log w @ map artist_search_url names\<rparr>"
    "get_tivo_artist_album_ids client ids w1 = Inr (d, w2)"
    "w2 = w1\<lparr>http_log := http_log w1 @ map discography_url ids\<rparr>"
    "get_tivo_tracks_in_artist_album_dict client d w2 = Inr (cands, w3)"
    "search_log w3 = search_log w"
proof -
  define names where "names = map snd (first_seen (seven_sources self 5 5))"
  have a: "recall_artists self 5 5 5 5 5
      = Inr (map fst (first_seen (seven_sources self 5 5)), names)"
    by (simp add: recall_artists_eq names_def)
  define w1 where "w1 = w\<lparr>http_log := http_log w @ map artist_search_url names\<rparr>"
  from get_tivo_artist_ids_reliable [OF assms, of names w] obtain ids where
    i: "get_tivo_artist_ids client names w = Inr (ids, w1)"
    unfolding w1_def by blast
  define w2 where "w2 = w1\<lparr>http_log := http_log w1 @ map discography_url ids\<rparr>"
  from get_tivo_artist_album_ids_reliable [OF assms, of ids w1] obtain d where
    d: "get_tivo_artist_album_ids client ids w1 = Inr (d, w2)"
    unfolding w2_def by blast
  from get_tivo_tracks_in_artist_album_dict_reliable [OF assms, of d w2] obtain cands w3 where
    c: "get_tivo_tracks_in_artist_album_dict client d w2 = Inr (cands, w3)"
    and sl3: "search_log w3 = search_log w2"
    by blast
  have sl: "search_log w3 = search_log w" by (simp add: sl3 w2_def w1_def)
  show ?thesis by (rule that [OF a i w1_def d w2_def c sl])
qed

lemma random_fill_negative:
  assumes "reliable client" and "num_tracks < 0"
  shows "random_fill self client num_tracks w =
     Inl (ValueError ''Sample larger than population or is negative'')"
proof -
  from assms(1) obtain names ids w1 d w2 cands w3 where
    st: "recall_artists self 5 5 5 5 5
       = Inr (map fst (first_seen (seven_sources self 5 5)), names)"
    "get_tivo_artist_ids client names w = Inr (ids, w1)"
    "get_tivo_artist_album_ids client ids w1 = Inr (d, w2)"
    "get_tivo_tracks_in_artist_album_dict client d w2 = Inr (cands, w3)"
    by (rule random_fill_stages [of client self w])
  have "random_sample cands (min num_tracks (int (length cands))) (rng w3)
      = Inl (ValueError ''Sample larger than population or is negative'')"
    using assms(2) by (simp add: random_sample_def)
  then show ?thesis
    unfolding random_fill_def st attempt_Inr prod.case by (simp add: attempt_Inl)
qed

lemma random_fill_reliable:
  "reliable client \<and> 0 \<le> num_tracks \<longrightarrow>
     (\<exists>rids names ids w1 d w2 cands w3 sampled g out m w'.
        recall_artists self 5 5 5 5 5 = Inr (rids, names)
      \<and> get_tivo_artist_ids client names w = Inr (ids, w1)
      \<and> http_log w1 = http_log w @ map artist_search_url names
      \<and> get_tivo_artist_album_ids client ids w1 = Inr (d, w2)
      \<and> get_tivo_tracks_in_artist_album_dict client d w2 = Inr (cands, w3)
      \<and> random_sample cands (min num_tracks (int (length cands))) (rng w3)
          = Inr (sampled, g)
      \<and> length sampled = min (nat num_tracks) (length cands)
      \<and> mset sampled \<subseteq># mset cands
      \<and> random_fill self client num_tracks w = Inr (Success out m, w')
      \<and> search_log w' = search_log w @ map title sampled
      \<and> (num_tracks \<le> int (length cands)
           \<longrightarrow> length (search_log w') = length (search_log w) + nat num_tracks)
      \<and> data_tracks out = concat (map (first_result self) (map title sampled))
      \<and> data_track_ids out = Some (map track_id (data_tracks out)))"
proof
  assume asm: "reliable client \<and> 0 \<le> num_tracks"
  then have rel: "reliable client" and k: "0 \<le> num_tracks" by simp_all
  from rel obtain names ids w1 d w2 cands w3 where
    a: "recall_artists self 5 5 5 5 5
       = Inr (map fst (first_seen (seven_sources self 5 5)), names)"
    and i: "get_tivo_artist_ids client names w = Inr (ids, w1)"
    and w1: "w1 = w\<lparr>http_log := http_log w @ map artist_search_url names\<rparr>"
    and d: "get_tivo_artist_album_ids client ids w1 = Inr (d, w2)"
    and c: "get_tivo_tracks_in_artist_album_dict client d w2 = Inr (cands, w3)"
    and sl3: "search_log w3 = search_log w"
    by (rule random_fill_stages [of client self w])
  define n where "n = min num_tracks (int (length cands))"
  have n: "0 \<le> n" "n \<le> int (length cands)" using k by (simp_all add: n_def)
  from random_sample_ok [OF n, of "rng w3"] obtain sampled g where
    smp: "random_sample cands n (rng w3) = Inr (sampled, g)"
    and len: "length sampled = nat n" and sub: "mset sampled \<subseteq># mset cands"
    by blast
  have len': "length sampled = min (nat num_tracks) (length cands)"
    using len k by (simp add: n_def min_def nat_le_iff)
  define titles where "titles = map title sampled"
  define found where "found = concat (map (first_result self) titles)"
  define out where "out = \<lparr>data_tracks = found, data_track_ids = Some (map track_id found),
     data_artist_names =
       Some (map (\<lambda>t. join '', '' (map artist_name (track_artists t))) found)\<rparr>"
  define w' where
    "w' = (w3\<lparr>rng := g\<rparr>)\<lparr>search_log := search_log (w3\<lparr>rng := g\<rparr>) @ titles\<rparr>"
  have l: "fill_search_loop self titles ([], [], []) (w3\<lparr>rng := g\<rparr>) =
      Inr ((found, map track_id found,
            map (\<lambda>t. join '', '' (map artist_name (track_artists t))) found), w')"
    by (simp add: fill_search_loop_eq found_def w'_def)
  have r: "random_fill self client num_tracks w = Inr (Success out ''Successfully random fill'', w')"
    unfolding random_fill_def a attempt_Inr prod.case i d c n_def [symmetric] smp
      titles_def [symmetric] Let_def l out_def
    by (rule refl)
  have sl: "search_log w' = search_log w @ map title sampled"
    by (simp add: w'_def sl3 titles_def)
  have cnt: "length (search_log w') = length (search_log w) + nat num_tracks"
    if "num_tracks \<le> int (length cands)"
    using that k len' by (simp add: sl min_def nat_le_iff)
  have hl: "http_log w1 = http_log w @ map artist_search_url names"
    by (simp add: w1)
  have dt: "data_tracks out = concat (map (first_result self) (map title sampled))"
    by (simp add: out_def found_def titles_def)
  have di: "data_track_ids out = Some (map track_id (data_tracks out))"
    by (simp add: out_def)
  show "\<exists>rids names ids w1 d w2 cands w3 sampled g out m w'.
        recall_artists self 5 5 5 5 5 = Inr (rids, names)
      \<and> get_tivo_artist_ids client names w = Inr (ids, w1)
      \<and> http_log w1 = http_log w @ map artist_search_url names
      \<and> get_tivo_artist_album_ids client ids w1 = Inr (d, w2)
      \<and> get_tivo_tracks_in_artist_album_dict client d w2 = Inr (cands, w3)
      \<and> random_sample cands (min num_tracks (int (length cands))) (rng w3)
          = Inr (sampled, g)
      \<and> length sampled = min (nat num_tracks) (length cands)
      \<and> mset sampled \<subseteq># mset cands
      \<and> random_fill self client num_tracks w = Inr (Success out m, w')
      \<and> search_log w' = search_log w @ map title sampled
      \<and> (num_tracks \<le> int (length cands)
           \<longrightarrow> length (search_log w') = length (search_log w) + nat num_tracks)
      \<and> data_tracks out = concat (map (first_result self) (map title sampled))
      \<and> data_track_ids out = Some (map track_id (data_tracks out))"
    using a i hl d c smp [unfolded n_def] len' sub r sl cnt dt di by blast
qed

text \<open>
  Claim C5. When no request to the catalogue raises and \<open>num_tracks\<close> is not negative,
  \<open>random_fill\<close> looks up every recalled artist name (one request for each name
  \<open>recall_artists\<close> returns, not the first three only), samples
  \<open>min num_tracks (length cands)\<close> of the candidate tracks \<open>cands\<close> with \<open>random_sample\<close>
  (no candidate taken more often than it occurs), searches the sampled titles in the
  order sampled, one search for each, so exactly \<open>num_tracks\<close> searches when there are at
  least so many candidates, and returns the first results in the order of the searches,
  with nothing removed and nothing reordered: two titles with the same first result give
  the same track twice. \<open>random_sample ts k\<close> takes the elements at \<open>k\<close> different
  positions of \<open>ts\<close>, and every arrangement of different positions is the choice of exactly
  one sequence of draws within range, so that draws without bias give a sample without
  bias. (Probabilities themselves are not part of the model.)
\<close>

theorem random_fill_pipeline:
  "(reliable client \<and> 0 \<le> num_tracks \<longrightarrow>
     (\<exists>rids names ids w1 d w2 cands w3 sampled g out m w'.
        recall_artists self 5 5 5 5 5 = Inr (rids, names)
      \<and> get_tivo_artist_ids client names w = Inr (ids, w1)
      \<and> http_log w1 = http_log w @ map artist_search_url names
      \<and> get_tivo_artist_album_ids client ids w1 = Inr (d, w2)
      \<and> get_tivo_tracks_in_artist_album_dict client d w2 = Inr (cands, w3)
      \<and> random_sample cands (min num_tracks (int (length cands))) (rng w3)
          = Inr (sampled, g)
      \<and> length sampled = min (nat num_tracks) (length cands)
      \<and> mset sampled \<subseteq># mset cands
      \<and> random_fill self client num_tracks w = Inr (Success out m, w')
      \<and> search_log w' = search_log w @ map title sampled
      \<and> (num_tracks \<le> int (length cands)
           \<longrightarrow> length (search_log w') = length (search_log w) + nat num_tracks)
      \<and> data_tracks out = concat (map (first_result self) (map title sampled))
      \<and> data_track_ids out = Some (map track_id (data_tracks out))))
   \<and> (0 \<le> k \<and> k \<le> int (length ts)
        \<longrightarrow> random_sample ts k gen =
              Inr (map ((!) ts) (fst (sample_pool (nat k) [0..<length ts] gen)),
                   snd (sample_pool (nat k) [0..<length ts] gen)))
   \<and> (length sel \<le> n \<and> distinct sel \<and> set sel \<subseteq> {..<n}
        \<longrightarrow> (\<exists>!ds. length ds = length sel \<and> in_range n ds
                   \<and> fst (sample_pool (length sel) [0..<n] (ds @- gen)) = sel))"
proof (intro conjI)
  show "reliable client \<and> 0 \<le> num_tracks \<longrightarrow>
     (\<exists>rids names ids w1 d w2 cands w3 sampled g out m w'.
        recall_artists self 5 5 5 5 5 = Inr (rids, names)
      \<and> get_tivo_artist_ids client names w = Inr (ids, w1)
      \<and> http_log w1 = http_log w @ map artist_search_url names
      \<and> get_tivo_artist_album_ids client ids w1 = Inr (d, w2)
      \<and> get_tivo_tracks_in_artist_album_dict client d w2 = Inr (cands, w3)
      \<and> random_sample cands (min num_tracks (int (length cands))) (rng w3)
          = Inr (sampled, g)
      \<and> length sampled = min (nat num_tracks) (length cands)
      \<and> mset sampled \<subseteq># mset cands
      \<and> random_fill self client num_tracks w = Inr (Success out m, w')
      \<and> search_log w' = search_log w @ map title sampled
      \<and> (num_tracks \<le> int (length cands)
           \<longrightarrow> length (search_log w') = length (search_log w) + nat num_tracks)
      \<and> data_tracks out = concat (map (first_result self) (map title sampled))
      \<and> data_track_ids out = Some (map track_id (data_tracks out)))"
    by (rule random_fill_reliable)
  show "0 \<le> k \<and> k \<le> int (length ts)
        \<longrightarrow> random_sample ts k gen =
              Inr (map ((!) ts) (fst (sample_pool (nat k) [0..<length ts] gen)),
                   snd (sample_pool (nat k) [0..<length ts] gen))"
    using random_sample_positions [of k ts gen] by blast
  show "length sel \<le> n \<and> distinct sel \<and> set sel \<subseteq> {..<n}
        \<longrightarrow> (\<exists>!ds. length ds = length sel \<and> in_range n ds
                   \<and> fst (sample_pool (length sel) [0..<n] (ds @- gen)) = sel)"
    using sample_pool_arrangements [of sel n gen] by blast
qed

theorem random_fill_pipeline_witness:
  "reliable two_versions_tivo \<and> (0::int) \<le> 2
   \<and> map_sum id fst (random_fill creep_sp two_versions_tivo 2 world0) =
       Inr (Success \<lparr>data_tracks = [creep, creep],
                     data_track_ids = Some [''70LcF31zb1H0PyJoS1Sx1r'', ''70LcF31zb1H0PyJoS1Sx1r''],
                     data_artist_names = Some [''Radiohead'', ''Radiohead'']\<rparr>
              ''Successfully random fill'')
   \<and> search_log (snd (projr (random_fill creep_sp two_versions_tivo 2 world0)))
       = [''Creep'', ''Creep (Acoustic)'']
   \<and> http_log (snd (projr (random_fill creep_sp two_versions_tivo 2 world0)))
       = [artist_search_url ''Radiohead'', discography_url ''MN0000326249'',
          album_url ''MW0000100069'']
   \<and> (0::int) \<le> 2 \<and> (2::int) \<le> int (length [''Creep'', ''Creep (Acoustic)''])
   \<and> random_sample [''Creep'', ''Creep (Acoustic)''] 2 (sconst 0)
       = Inr ([''Creep'', ''Creep (Acoustic)''], sconst 0)
   \<and> length [1, 0::nat] \<le> 2 \<and> distinct [1, 0::nat] \<and> set [1, 0::nat] \<subseteq> {..<2}
   \<and> in_range 2 [1, 0]
   \<and> fst (sample_pool 2 [0..<2] ([1, 0] @- sconst 0)) = [1, 0]"
proof -
  have h: "reliable two_versions_tivo \<and> (0::int) \<le> 2"
    by (simp add: reliable_def two_versions_tivo_def)
  have e: "random_fill creep_sp two_versions_tivo 2 world0 =
       Inr (Success \<lparr>data_tracks = [creep, creep],
                     data_track_ids = Some [''70LcF31zb1H0PyJoS1Sx1r'', ''70LcF31zb1H0PyJoS1Sx1r''],
                     data_artist_names = Some [''Radiohead'', ''Radiohead'']\<rparr>
              ''Successfully random fill'',
            \<lparr>rng = sconst 0,
             http_log = [artist_search_url ''Radiohead'', discography_url ''MN0000326249'',
                         album_url ''MW0000100069''],
             search_log = [''Creep'', ''Creep (Acoustic)'']\<rparr>)"
    by (simp add: random_fill_def pipeline_eval creep_sp_def two_versions_tivo_def
          creep_def str_nat.simps numeral_2_eq_2 [symmetric]
          del: shuffle_loop.simps(2) sample_pool.simps(2) cong: attempt_weak_cong)
  have s: "random_sample [''Creep'', ''Creep (Acoustic)''] 2 (sconst 0)
       = Inr ([''Creep'', ''Creep (Acoustic)''], sconst 0)"
    by (simp add: random_sample_def prod_eq_iff sample_pool_eval numeral_2_eq_2 [symmetric]
          del: sample_pool.simps(2))
  have c: "fst (sample_pool 2 [0..<2] ([1, 0] @- sconst 0)) = [1, 0]"
    by (simp add: sample_pool_eval upt_rec [of _ "numeral k" for k] upt_rec [of _ "Suc k" for k]
          numeral_2_eq_2 [symmetric] del: sample_pool.simps(2))
  have r: "in_range 2 [1, 0]" by simp
  show ?thesis
    using random_fill_pipeline [of two_versions_tivo 2 creep_sp world0 2
        "[''Creep'', ''Creep (Acoustic)'']" "sconst 0" "[1, 0]" 2] h s c r
    by (simp add: e)
qed

end
